theory Spec2Isabelle
  imports Complex_Main
begin

section \<open>Python values and the string operations the mutations use\<close>

text \<open>
  The values that reach the customer mutations are Python strings and \<open>None\<close>: a GraphQL
  \<open>String\<close> argument, or the result of \<open>data.get(key)\<close> on a decoded JSON record whose
  fields are strings, null or absent. A Python \<open>str\<close> is modelled as the list of its code
  points, one \<open>char\<close> each, so the model covers the strings whose code points are below 256.
\<close>

datatype pyval = PNone | PStr string

text \<open>
  The exceptions no handler of \<open>crm/schema.py\<close> catches: those of the store, and the
  \<open>ValueError\<close> of the conversion of an id that is not a key.
\<close>

datatype exn = IntegrityError | OperationalError | ValueError

text \<open>\<open>str(v)\<close>, which is what an f-string field \<open>{v}\<close> inserts.\<close>

fun py_str :: "pyval \<Rightarrow> string" where
  "py_str PNone = ''None''"
| "py_str (PStr s) = s"

definition startswith :: "string \<Rightarrow> string \<Rightarrow> bool" where
  "startswith s pre = (take (length pre) s = pre)"

text \<open>\<open>s.replace(old, new)\<close> for a pattern \<open>old\<close> of one character.\<close>

definition replace_char :: "string \<Rightarrow> char \<Rightarrow> string \<Rightarrow> string" where
  "replace_char s old new = concat (map (\<lambda>c. if c = old then new else [c]) s)"

text \<open>
  \<open>str.isdigit()\<close>: at least one character, and every character a digit. Below code point
  256 the digits of Python are \<open>0\<close> to \<open>9\<close> and the superscripts two, three and one
  (code points 0xB2, 0xB3, 0xB9).
\<close>

definition isdigit_char :: "char \<Rightarrow> bool" where
  "isdigit_char c = (c \<in> set ''0123456789'' \<or> c \<in> {CHR 0xB2, CHR 0xB3, CHR 0xB9})"

definition isdigit :: "string \<Rightarrow> bool" where
  "isdigit s = (s \<noteq> [] \<and> list_all isdigit_char s)"

text \<open>Decimal rendering of a non-negative integer, as \<open>{idx+1}\<close> in an f-string.\<close>

definition digit_of :: "nat \<Rightarrow> char" where
  "digit_of d = ''0123456789'' ! d"

function str_of_nat :: "nat \<Rightarrow> string" where
  "str_of_nat n =
     (if n < 10 then [digit_of n] else str_of_nat (n div 10) @ [digit_of (n mod 10)])"
  by pat_completeness auto
termination
  by (relation "measure id") auto

declare str_of_nat.simps [simp del]

text \<open>\<open>d.get(key)\<close> on a dict: \<open>None\<close> when the key is absent.\<close>

type_synonym pydict = "string \<rightharpoonup> pyval"

definition dict_get :: "pydict \<Rightarrow> string \<Rightarrow> pyval" where
  "dict_get d k = (case d k of None \<Rightarrow> PNone | Some v \<Rightarrow> v)"


section \<open>The entity store\<close>

text \<open>
  Rows of the three tables of \<open>crm.models\<close>, with the fields the GraphQL types expose.
  Primary keys are integers; decimal amounts are exact rationals; a timestamp is a
  number. The order of a table's list is the order of insertion.
\<close>

record customer =
  c_id :: int
  c_name :: pyval
  c_email :: pyval
  c_phone :: pyval

record product =
  p_id :: int
  p_name :: string
  p_price :: rat
  p_stock :: int

record order =
  o_id :: int
  o_customer :: int
  o_products :: "int list"
  o_total_amount :: rat
  o_order_date :: "nat option"

record store =
  customers :: "customer list"
  products :: "product list"
  orders :: "order list"

text \<open>The key the store assigns to a new row: above every key of the table.\<close>

definition new_id :: "int list \<Rightarrow> int" where
  "new_id ids = foldr max ids 0 + 1"

text \<open>
  What \<open>crm/schema.py\<close> calls and the repository does not define:
  \<^item> \<open>validate_email\<close> of \<open>django.core.validators\<close>: \<open>True\<close> when it returns, \<open>False\<close>
    when it raises \<open>ValidationError\<close>;
  \<^item> the store-level fault of \<open>Customer.objects.create\<close>: the exception the insertion of
    a row raises in a given store, if any (a constraint of the table, a lost connection);
  \<^item> the conversion of the text of a GraphQL \<open>ID\<close> to a primary key, which the ORM applies
    to the argument of \<open>get(pk=...)\<close> and to each element of \<open>filter(pk__in=...)\<close>: the key,
    or \<open>None\<close> when the conversion raises \<open>ValueError\<close>.
\<close>

record env =
  validate_email :: "pyval \<Rightarrow> bool"
  create_raises :: "store \<Rightarrow> pyval \<Rightarrow> pyval \<Rightarrow> pyval \<Rightarrow> exn option"
  key_of_id :: "string \<Rightarrow> int option"

text \<open>\<open>Customer.objects.filter(email=email).exists()\<close>\<close>

definition email_exists :: "store \<Rightarrow> pyval \<Rightarrow> bool" where
  "email_exists s email = (email \<in> set (map c_email (customers s)))"

text \<open>\<open>Customer.objects.create(name=name, email=email, phone=phone)\<close>\<close>

definition Customer_create ::
  "env \<Rightarrow> store \<Rightarrow> pyval \<Rightarrow> pyval \<Rightarrow> pyval \<Rightarrow> exn + (customer \<times> store)" where
  "Customer_create e s name email phone =
     (case create_raises e s name email phone of
        Some x \<Rightarrow> Inl x
      | None \<Rightarrow>
          (let c = \<lparr>c_id = new_id (map c_id (customers s)), c_name = name,
                    c_email = email, c_phone = phone\<rparr>
           in Inr (c, s\<lparr>customers := customers s @ [c]\<rparr>)))"

text \<open>
  The phone test shared by both customer mutations:
  \<open>phone and not (phone.startswith("+") or phone.replace("-", "").isdigit())\<close>.
  \<open>None\<close> and the empty string are false, so the test lets them pass.
\<close>

fun phone_rejected :: "pyval \<Rightarrow> bool" where
  "phone_rejected PNone = False"
| "phone_rejected (PStr p) =
     (p \<noteq> [] \<and> \<not> (startswith p ''+'' \<or> isdigit (replace_char p (CHR ''-'') [])))"


section \<open>CreateCustomer\<close>

text \<open>
  A mutation returns its outcome (the exception that escapes it, or its response) and the
  store it leaves. The response of \<open>CreateCustomer\<close> is the pair of its \<open>customer\<close> and
  \<open>message\<close> fields.
\<close>

definition CreateCustomer_mutate ::
  "env \<Rightarrow> store \<Rightarrow> string \<Rightarrow> string \<Rightarrow> pyval \<Rightarrow> (exn + (customer option \<times> string)) \<times> store" where
  "CreateCustomer_mutate e s name email phone =
     (if \<not> validate_email e (PStr email) then (Inr (None, ''Invalid email format''), s)
      else if email_exists s (PStr email) then (Inr (None, ''Email already exists''), s)
      else if phone_rejected phone then (Inr (None, ''Invalid phone format''), s)
      else (case Customer_create e s (PStr name) (PStr email) phone of
              Inl x \<Rightarrow> (Inl x, s)
            | Inr (c, s') \<Rightarrow> (Inr (Some c, ''Customer created successfully''), s')))"


section \<open>BulkCreateCustomers\<close>

text \<open>
  The body of the \<open>for idx, data in enumerate(input)\<close> loop, with the loop's variables
  (\<open>idx\<close>, the store, \<open>created_customers\<close>, \<open>errors\<close>) passed along. An exception
  leaves the loop at once.
\<close>

fun bulk_loop ::
  "env \<Rightarrow> nat \<Rightarrow> pydict list \<Rightarrow> store \<Rightarrow> customer list \<Rightarrow> string list
     \<Rightarrow> exn + (store \<times> customer list \<times> string list)" where
  "bulk_loop e idx [] s created errors = Inr (s, created, errors)"
| "bulk_loop e idx (data # rest) s created errors =
     (let name = dict_get data ''name'';
          email = dict_get data ''email'';
          phone = dict_get data ''phone''
      in if \<not> validate_email e email then
           bulk_loop e (idx + 1) rest s created
             (errors @ [''Row '' @ str_of_nat (idx + 1) @ '': Invalid email '' @ py_str email])
         else if email_exists s email then
           bulk_loop e (idx + 1) rest s created
             (errors @ [''Row '' @ str_of_nat (idx + 1) @ '': Email already exists (''
                          @ py_str email @ '')''])
         else if phone_rejected phone then
           bulk_loop e (idx + 1) rest s created
             (errors @ [''Row '' @ str_of_nat (idx + 1) @ '': Invalid phone format (''
                          @ py_str phone @ '')''])
         else (case Customer_create e s name email phone of
                 Inl x \<Rightarrow> Inl x
               | Inr (c, s') \<Rightarrow> bulk_loop e (idx + 1) rest s' (created @ [c]) errors))"

text \<open>
  \<open>with transaction.atomic():\<close> commits the writes of its body when the body ends, and
  restores the store of its entry when an exception leaves the body, which it raises again.
\<close>

definition transaction_atomic ::
  "(store \<Rightarrow> exn + (store \<times> 'a)) \<Rightarrow> store \<Rightarrow> (exn + 'a) \<times> store" where
  "transaction_atomic body s =
     (case body s of
        Inl x \<Rightarrow> (Inl x, s)
      | Inr (s', r) \<Rightarrow> (Inr r, s'))"

text \<open>The response is the pair of the \<open>customers\<close> and \<open>errors\<close> fields.\<close>

definition BulkCreateCustomers_mutate ::
  "env \<Rightarrow> store \<Rightarrow> pydict list \<Rightarrow> (exn + (customer list \<times> string list)) \<times> store" where
  "BulkCreateCustomers_mutate e s input =
     transaction_atomic (\<lambda>s0. bulk_loop e 0 input s0 [] []) s"


section \<open>CreateProduct\<close>

text \<open>
  The response is the pair of the \<open>product\<close> and \<open>message\<close> fields. The \<open>price\<close>
  argument stands for the exact value that is compared with zero and kept in the row.
\<close>

definition CreateProduct_mutate ::
  "store \<Rightarrow> string \<Rightarrow> rat \<Rightarrow> int \<Rightarrow> (product option \<times> string) \<times> store" where
  "CreateProduct_mutate s name price stock =
     (if price \<le> 0 then ((None, ''Price must be positive''), s)
      else if stock < 0 then ((None, ''Stock cannot be negative''), s)
      else
        (let product = \<lparr>p_id = new_id (map p_id (products s)), p_name = name,
                         p_price = price, p_stock = stock\<rparr>
         in ((Some product, ''Product created successfully''),
             s\<lparr>products := products s @ [product]\<rparr>)))"


section \<open>CreateOrder\<close>

text \<open>
  The arguments \<open>customer_id\<close> and \<open>product_ids\<close> are GraphQL \<open>ID\<close> values: text, which
  the message of an unknown customer repeats as it was given.
\<close>

text \<open>
  \<open>Customer.objects.get(pk=customer_id)\<close>: the customer with the key the text denotes;
  \<open>Inr None\<close> stands for \<open>Customer.DoesNotExist\<close>, \<open>Inl\<close> for the exception of a text that
  is no key.
\<close>

definition Customer_get :: "env \<Rightarrow> store \<Rightarrow> string \<Rightarrow> exn + customer option" where
  "Customer_get e s pk =
     (case key_of_id e pk of
        None \<Rightarrow> Inl ValueError
      | Some k \<Rightarrow> Inr (find (\<lambda>c. c_id c = k) (customers s)))"

text \<open>The keys of a list of ids, when every one of them is a key.\<close>

fun keys_of_ids :: "env \<Rightarrow> string list \<Rightarrow> int list option" where
  "keys_of_ids e [] = Some []"
| "keys_of_ids e (i # ids) =
     (case key_of_id e i of
        None \<Rightarrow> None
      | Some k \<Rightarrow> map_option (Cons k) (keys_of_ids e ids))"

text \<open>The rows of the product table whose key is among \<open>ks\<close>.\<close>

definition products_in :: "store \<Rightarrow> int list \<Rightarrow> product list" where
  "products_in s ks = filter (\<lambda>p. p_id p \<in> set ks) (products s)"

text \<open>\<open>Product.objects.filter(pk__in=product_ids)\<close>\<close>

definition Product_filter_pk_in :: "env \<Rightarrow> store \<Rightarrow> string list \<Rightarrow> exn + product list" where
  "Product_filter_pk_in e s product_ids =
     (case keys_of_ids e product_ids of
        None \<Rightarrow> Inl ValueError
      | Some ks \<Rightarrow> Inr (products_in s ks))"

text \<open>
  The response is the pair of the \<open>order\<close> and \<open>message\<close> fields; \<open>matched\<close> is the
  queryset \<open>products\<close> of the source. \<open>Order.objects.create\<close> followed by
  \<open>order.products.set(products)\<close> stores one order row with its products.
\<close>

definition CreateOrder_mutate ::
  "env \<Rightarrow> store \<Rightarrow> string \<Rightarrow> string list \<Rightarrow> nat option
     \<Rightarrow> (exn + (order option \<times> string)) \<times> store" where
  "CreateOrder_mutate e s customer_id product_ids order_date =
     (case Customer_get e s customer_id of
        Inl x \<Rightarrow> (Inl x, s)
      | Inr None \<Rightarrow> (Inr (None, ''Invalid customer ID '' @ customer_id), s)
      | Inr (Some customer) \<Rightarrow>
          (case Product_filter_pk_in e s product_ids of
             Inl x \<Rightarrow> (Inl x, s)
           | Inr matched \<Rightarrow>
               if matched = [] then (Inr (None, ''No valid products found''), s)
               else if length matched \<noteq> length product_ids then
                 (Inr (None, ''Some product IDs are invalid''), s)
               else
                 (let total_amount = sum_list (map p_price matched);
                      order = \<lparr>o_id = new_id (map o_id (orders s)),
                               o_customer = c_id customer,
                               o_products = map p_id matched,
                               o_total_amount = total_amount,
                               o_order_date = order_date\<rparr>
                  in (Inr (Some order, ''Order created successfully''),
                      s\<lparr>orders := orders s @ [order]\<rparr>))))"


section \<open>Concrete environments and stores\<close>

text \<open>
  Modelled from the spec: \<open>validateEmail\<close>, the syntactic email check "local@domain shape
  with valid domain structure" of section 4.1; Django's \<open>validate_email\<close> is not part of
  the repository. This coarse instance asks for a non-empty local part, a single \<open>@\<close> and
  a domain with an inner dot, and rejects \<open>None\<close>. It instantiates the \<open>validate_email\<close>
  field of the environment where a call is evaluated on concrete data.
\<close>

definition validateEmail :: "pyval \<Rightarrow> bool" where
  "validateEmail v =
     (case v of
        PNone \<Rightarrow> False
      | PStr s \<Rightarrow>
          (let local_part = takeWhile (\<lambda>c. c \<noteq> CHR ''@'') s;
               domain = drop 1 (dropWhile (\<lambda>c. c \<noteq> CHR ''@'') s)
           in local_part \<noteq> [] \<and> length local_part < length s \<and> CHR ''@'' \<notin> set domain
              \<and> CHR ''.'' \<in> set domain \<and> hd domain \<noteq> CHR ''.'' \<and> last domain \<noteq> CHR ''.''))"

text \<open>
  An instance of \<open>key_of_id\<close>, for calls evaluated on concrete ids: the text of a decimal
  numeral denotes its value, as for Python's \<open>int\<close>, which an integer key field applies to
  the text (\<open>007\<close> denotes 7), and a text that is not a numeral is refused, as \<open>int\<close>
  refuses \<open>abc\<close>.
\<close>

definition decimal_key :: "string \<Rightarrow> int option" where
  "decimal_key t =
     (if t \<noteq> [] \<and> list_all (\<lambda>c. c \<in> set ''0123456789'') t
      then Some (foldl (\<lambda>n c. 10 * n + int (length (takeWhile (\<lambda>d. d \<noteq> c) ''0123456789''))) 0 t)
      else None)"

text \<open>A store that accepts every customer row.\<close>

definition plain_env :: env where
  "plain_env = \<lparr>validate_email = validateEmail, create_raises = (\<lambda>s name email phone. None),
                 key_of_id = decimal_key\<rparr>"

text \<open>A store whose customer table refuses a row without a name (a NOT NULL column).\<close>

definition strict_env :: env where
  "strict_env = \<lparr>validate_email = validateEmail,
     create_raises = (\<lambda>s name email phone. if name = PNone then Some IntegrityError else None),
     key_of_id = decimal_key\<rparr>"

definition empty_store :: store where
  "empty_store = \<lparr>customers = [], products = [], orders = []\<rparr>"

text \<open>The customer Alice and the two products of \<open>seed_db.py\<close>.\<close>

definition shop :: store where
  "shop = \<lparr>customers = [\<lparr>c_id = 1, c_name = PStr ''Alice'', c_email = PStr ''alice@example.com'',
                          c_phone = PStr ''+1234567890''\<rparr>],
           products = [\<lparr>p_id = 1, p_name = ''Laptop'', p_price = 99999 / 100, p_stock = 10\<rparr>,
                       \<lparr>p_id = 2, p_name = ''Phone'', p_price = 49999 / 100, p_stock = 20\<rparr>],
           orders = []\<rparr>"

text \<open>Records of a bulk call, and the row the first of them becomes in an empty store.\<close>

definition rec_alice :: pydict where
  "rec_alice = [''name'' \<mapsto> PStr ''Alice'', ''email'' \<mapsto> PStr ''alice@example.com'',
                ''phone'' \<mapsto> PStr ''+1234567890'']"

definition rec_alice_again :: pydict where
  "rec_alice_again = [''name'' \<mapsto> PStr ''Alicia'', ''email'' \<mapsto> PStr ''alice@example.com'']"

definition rec_noname :: pydict where
  "rec_noname = [''email'' \<mapsto> PStr ''bob@example.com'']"

definition rec_bad :: pydict where
  "rec_bad = [''name'' \<mapsto> PStr ''Bob'', ''email'' \<mapsto> PStr ''not-an-email'']"

definition rec_badphone :: pydict where
  "rec_badphone = [''name'' \<mapsto> PStr ''Carol'', ''email'' \<mapsto> PStr ''carol@example.com'',
                   ''phone'' \<mapsto> PStr ''abc'']"

definition rec_carol :: pydict where
  "rec_carol = [''name'' \<mapsto> PStr ''Carol'', ''email'' \<mapsto> PStr ''carol@example.com'']"

definition rec_noemail :: pydict where
  "rec_noemail = [''name'' \<mapsto> PStr ''Dan'', ''phone'' \<mapsto> PStr ''555-1234'']"

definition row_alice :: customer where
  "row_alice = \<lparr>c_id = 1, c_name = PStr ''Alice'', c_email = PStr ''alice@example.com'',
                 c_phone = PStr ''+1234567890''\<rparr>"

text \<open>
  The row \<open>Customer.objects.create\<close> builds for a record of a bulk call in a given store.
\<close>

abbreviation created_row :: "store \<Rightarrow> pydict \<Rightarrow> customer" where
  "created_row s data \<equiv>
     \<lparr>c_id = new_id (map c_id (customers s)), c_name = dict_get data ''name'',
      c_email = dict_get data ''email'', c_phone = dict_get data ''phone''\<rparr>"

text \<open>
  The shape section 4.3 of the spec gives to every error entry of a bulk call,
  "Row <1-based index>: <reason> (<value>)": the entry starts with the row prefix and ends
  with the value in parentheses, a reason between them.
\<close>

definition spec_error_shape :: "nat \<Rightarrow> string \<Rightarrow> string \<Rightarrow> bool" where
  "spec_error_shape row v entry =
     (let pre = ''Row '' @ str_of_nat row @ '': ''; suf = '' ('' @ v @ '')''
      in length pre + length suf \<le> length entry \<and> take (length pre) entry = pre
         \<and> drop (length entry - length suf) entry = suf)"


section \<open>Reachable stores and the invariant of order totals\<close>

text \<open>
  The stores the four mutations of \<open>class Mutation\<close> produce, one call after another,
  from the empty store.
\<close>

inductive reachable :: "env \<Rightarrow> store \<Rightarrow> bool" for e :: env where
  initial: "reachable e empty_store"
| create_customer:
    "reachable e s \<Longrightarrow> reachable e (snd (CreateCustomer_mutate e s name email phone))"
| bulk_create_customers:
    "reachable e s \<Longrightarrow> reachable e (snd (BulkCreateCustomers_mutate e s input))"
| create_product:
    "reachable e s \<Longrightarrow> reachable e (snd (CreateProduct_mutate s pname price stock))"
| create_order:
    "reachable e s \<Longrightarrow>
     reachable e (snd (CreateOrder_mutate e s customer_id product_ids order_date))"

text \<open>
  The derived-field invariant of section 3 of the spec, for one order of a store: the
  order refers to products of the store, and its \<open>total_amount\<close> is the sum of their
  prices.
\<close>

definition order_total_ok :: "store \<Rightarrow> order \<Rightarrow> bool" where
  "order_total_ok s ord =
     (set (o_products ord) \<subseteq> set (map p_id (products s)) \<and>
      o_total_amount ord = sum_list (map p_price (products_in s (o_products ord))))"


section \<open>BulkCreateCustomers: the loop, record by record\<close>

text \<open>The four ways the loop treats a record.\<close>

lemma bulk_loop_invalid_email:
  "\<not> validate_email e (dict_get data ''email'') \<Longrightarrow>
   bulk_loop e idx (data # rest) s created errors =
     bulk_loop e (Suc idx) rest s created
       (errors @ [''Row '' @ str_of_nat (Suc idx) @ '': Invalid email ''
                    @ py_str (dict_get data ''email'')])"
  by simp

lemma bulk_loop_email_exists:
  "validate_email e (dict_get data ''email'') \<Longrightarrow> email_exists s (dict_get data ''email'') \<Longrightarrow>
   bulk_loop e idx (data # rest) s created errors =
     bulk_loop e (Suc idx) rest s created
       (errors @ [''Row '' @ str_of_nat (Suc idx) @ '': Email already exists (''
                    @ py_str (dict_get data ''email'') @ '')''])"
  by simp

lemma bulk_loop_phone_rejected:
  "validate_email e (dict_get data ''email'') \<Longrightarrow> \<not> email_exists s (dict_get data ''email'') \<Longrightarrow>
   phone_rejected (dict_get data ''phone'') \<Longrightarrow>
   bulk_loop e idx (data # rest) s created errors =
     bulk_loop e (Suc idx) rest s created
       (errors @ [''Row '' @ str_of_nat (Suc idx) @ '': Invalid phone format (''
                    @ py_str (dict_get data ''phone'') @ '')''])"
  by simp

lemma bulk_loop_create:
  "validate_email e (dict_get data ''email'') \<Longrightarrow> \<not> email_exists s (dict_get data ''email'') \<Longrightarrow>
   \<not> phone_rejected (dict_get data ''phone'') \<Longrightarrow>
   bulk_loop e idx (data # rest) s created errors =
     (case Customer_create e s (dict_get data ''name'') (dict_get data ''email'')
             (dict_get data ''phone'') of
        Inl x \<Rightarrow> Inl x
      | Inr (c, s') \<Rightarrow> bulk_loop e (Suc idx) rest s' (created @ [c]) errors)"
  by (simp split: sum.splits)

text \<open>
  Processing \<open>xs @ ys\<close> is processing \<open>xs\<close>, then \<open>ys\<close> from the state \<open>xs\<close> left;
  the loop only appends to its two output lists.
\<close>

lemma bulk_loop_append:
  "bulk_loop e idx (xs @ ys) s created errors =
     (case bulk_loop e idx xs s created errors of
        Inl x \<Rightarrow> Inl x
      | Inr (s1, created1, errors1) \<Rightarrow> bulk_loop e (idx + length xs) ys s1 created1 errors1)"
proof (induction xs arbitrary: idx s created errors)
  case Nil
  show ?case by simp
next
  case (Cons data xs)
  show ?case
    by (simp add: Cons.IH Let_def split: sum.splits prod.splits)
qed

lemma bulk_loop_accumulates:
  "bulk_loop e idx xs s created errors =
     (case bulk_loop e idx xs s [] [] of
        Inl x \<Rightarrow> Inl x
      | Inr (s1, cs, es) \<Rightarrow> Inr (s1, created @ cs, errors @ es))"
proof (induction xs arbitrary: idx s created errors)
  case Nil
  show ?case by simp
next
  case (Cons data xs)
  have step: "bulk_loop e (Suc idx) xs s' (created @ cs0) (errors @ es0) =
       (case bulk_loop e (Suc idx) xs s' cs0 es0 of
          Inl x \<Rightarrow> Inl x
        | Inr (s1, cs, es) \<Rightarrow> Inr (s1, created @ cs, errors @ es))" for s' cs0 es0
    by (subst Cons.IH, subst (2) Cons.IH) (simp split: sum.splits prod.splits)
  consider (bad) "\<not> validate_email e (dict_get data ''email'')"
    | (dup) "validate_email e (dict_get data ''email'')" "email_exists s (dict_get data ''email'')"
    | (phone) "validate_email e (dict_get data ''email'')"
        "\<not> email_exists s (dict_get data ''email'')" "phone_rejected (dict_get data ''phone'')"
    | (new) "validate_email e (dict_get data ''email'')"
        "\<not> email_exists s (dict_get data ''email'')" "\<not> phone_rejected (dict_get data ''phone'')"
    by blast
  then show ?case
  proof cases
    case bad
    show ?thesis
      using step [of s "[]" "[_]"] by (simp only: bulk_loop_invalid_email [OF bad] append_Nil append_Nil2)
  next
    case dup
    show ?thesis
      using step [of s "[]" "[_]"] by (simp only: bulk_loop_email_exists [OF dup] append_Nil append_Nil2)
  next
    case phone
    show ?thesis
      using step [of s "[]" "[_]"] by (simp only: bulk_loop_phone_rejected [OF phone] append_Nil append_Nil2)
  next
    case new
    show ?thesis
      using step [of _ "[_]" "[]"]
      by (simp only: bulk_loop_create [OF new] append_Nil append_Nil2 split: sum.splits prod.splits) auto
  qed
qed

lemma str_of_nat_1: "str_of_nat (Suc 0) = ''1''"
  by (simp add: str_of_nat.simps digit_of_def)

lemma str_of_nat_2: "str_of_nat (Suc (Suc 0)) = ''2''"
  by (simp add: str_of_nat.simps digit_of_def)

declare bulk_loop.simps(2) [simp del]

lemma BulkCreateCustomers_append:
  "BulkCreateCustomers_mutate e s (xs @ ys) =
     (case bulk_loop e 0 xs s [] [] of
        Inl x \<Rightarrow> (Inl x, s)
      | Inr (s1, cs, es) \<Rightarrow>
          (case bulk_loop e (length xs) ys s1 [] [] of
             Inl x \<Rightarrow> (Inl x, s)
           | Inr (s2, cs2, es2) \<Rightarrow> (Inr (cs @ cs2, es @ es2), s2)))"
proof (cases "bulk_loop e 0 xs s [] []")
  case (Inl x)
  then show ?thesis
    by (simp add: BulkCreateCustomers_mutate_def transaction_atomic_def bulk_loop_append)
next
  case (Inr r)
  obtain s1 cs es where r: "r = (s1, cs, es)" by (cases r)
  have acc: "bulk_loop e (length xs) ys s1 cs es =
      (case bulk_loop e (length xs) ys s1 [] [] of
         Inl x \<Rightarrow> Inl x
       | Inr (s2, cs2, es2) \<Rightarrow> Inr (s2, cs @ cs2, es @ es2))"
    by (rule bulk_loop_accumulates)
  show ?thesis
    using Inr unfolding r BulkCreateCustomers_mutate_def transaction_atomic_def bulk_loop_append
    by (simp add: acc split: sum.splits prod.splits)
qed

lemma bulk_loop_store:
  "bulk_loop e idx xs s created errors = Inr (s1, cs, es) \<Longrightarrow>
   \<exists>new. cs = created @ new \<and> s1 = s\<lparr>customers := customers s @ new\<rparr>"
proof (induction xs arbitrary: idx s created errors)
  case Nil
  then show ?case by simp
next
  case (Cons data xs)
  consider (bad) "\<not> validate_email e (dict_get data ''email'')"
    | (dup) "validate_email e (dict_get data ''email'')" "email_exists s (dict_get data ''email'')"
    | (phone) "validate_email e (dict_get data ''email'')"
        "\<not> email_exists s (dict_get data ''email'')" "phone_rejected (dict_get data ''phone'')"
    | (new) "validate_email e (dict_get data ''email'')"
        "\<not> email_exists s (dict_get data ''email'')" "\<not> phone_rejected (dict_get data ''phone'')"
    by blast
  then show ?case
  proof cases
    case bad
    from Cons.prems show ?thesis
      unfolding bulk_loop_invalid_email [OF bad] by (rule Cons.IH)
  next
    case dup
    from Cons.prems show ?thesis
      unfolding bulk_loop_email_exists [OF dup] by (rule Cons.IH)
  next
    case phone
    from Cons.prems show ?thesis
      unfolding bulk_loop_phone_rejected [OF phone] by (rule Cons.IH)
  next
    case new
    from Cons.prems obtain c s' where
      c: "Customer_create e s (dict_get data ''name'') (dict_get data ''email'')
            (dict_get data ''phone'') = Inr (c, s')"
      and run: "bulk_loop e (Suc idx) xs s' (created @ [c]) errors = Inr (s1, cs, es)"
      unfolding bulk_loop_create [OF new] by (auto split: sum.splits)
    from c have s': "s' = s\<lparr>customers := customers s @ [c]\<rparr>"
      by (auto simp: Customer_create_def Let_def split: option.splits)
    from Cons.IH [OF run] obtain new' where
      "cs = (created @ [c]) @ new'" "s1 = s'\<lparr>customers := customers s' @ new'\<rparr>"
      by blast
    then have "cs = created @ (c # new') \<and> s1 = s\<lparr>customers := customers s @ (c # new')\<rparr>"
      by (simp add: s')
    then show ?thesis by blast
  qed
qed

lemma bulk_loop_single_invalid_email:
  "\<not> validate_email e (dict_get data ''email'') \<Longrightarrow>
   bulk_loop e idx [data] s [] [] =
     Inr (s, [], [''Row '' @ str_of_nat (Suc idx) @ '': Invalid email ''
                    @ py_str (dict_get data ''email'')])"
  by (simp add: bulk_loop_invalid_email)

lemma bulk_loop_single_email_exists:
  "validate_email e (dict_get data ''email'') \<Longrightarrow> email_exists s (dict_get data ''email'') \<Longrightarrow>
   bulk_loop e idx [data] s [] [] =
     Inr (s, [], [''Row '' @ str_of_nat (Suc idx) @ '': Email already exists (''
                    @ py_str (dict_get data ''email'') @ '')''])"
  by (simp add: bulk_loop_email_exists)

lemma bulk_loop_single_phone_rejected:
  "validate_email e (dict_get data ''email'') \<Longrightarrow> \<not> email_exists s (dict_get data ''email'') \<Longrightarrow>
   phone_rejected (dict_get data ''phone'') \<Longrightarrow>
   bulk_loop e idx [data] s [] [] =
     Inr (s, [], [''Row '' @ str_of_nat (Suc idx) @ '': Invalid phone format (''
                    @ py_str (dict_get data ''phone'') @ '')''])"
  by (simp add: bulk_loop_phone_rejected)

lemma bulk_loop_single_created:
  "validate_email e (dict_get data ''email'') \<Longrightarrow> \<not> email_exists s (dict_get data ''email'') \<Longrightarrow>
   \<not> phone_rejected (dict_get data ''phone'') \<Longrightarrow>
   create_raises e s (dict_get data ''name'') (dict_get data ''email'') (dict_get data ''phone'') = None \<Longrightarrow>
   bulk_loop e idx [data] s [] [] =
     Inr (s\<lparr>customers := customers s @
            [\<lparr>c_id = new_id (map c_id (customers s)), c_name = dict_get data ''name'',
              c_email = dict_get data ''email'', c_phone = dict_get data ''phone''\<rparr>]\<rparr>,
          [\<lparr>c_id = new_id (map c_id (customers s)), c_name = dict_get data ''name'',
              c_email = dict_get data ''email'', c_phone = dict_get data ''phone''\<rparr>], [])"
  by (simp add: bulk_loop_create Customer_create_def Let_def)

lemma bulk_loop_single_fault:
  "validate_email e (dict_get data ''email'') \<Longrightarrow> \<not> email_exists s (dict_get data ''email'') \<Longrightarrow>
   \<not> phone_rejected (dict_get data ''phone'') \<Longrightarrow>
   create_raises e s (dict_get data ''name'') (dict_get data ''email'') (dict_get data ''phone'') = Some x \<Longrightarrow>
   bulk_loop e idx (data # rest) s created errors = Inl x"
  by (simp add: bulk_loop_create Customer_create_def Let_def)

lemma bulk_loop_append_Inr:
  assumes "bulk_loop e 0 xs s [] [] = Inr (s1, cs, es)"
    and "bulk_loop e (length xs) ys s1 [] [] = Inr (s2, cs2, es2)"
  shows "bulk_loop e 0 (xs @ ys) s [] [] = Inr (s2, cs @ cs2, es @ es2)"
proof -
  have "bulk_loop e (length xs) ys s1 cs es = Inr (s2, cs @ cs2, es @ es2)"
    by (subst bulk_loop_accumulates) (simp add: assms(2))
  then show ?thesis by (simp add: bulk_loop_append assms(1))
qed

lemma BulkCreateCustomers_rejected_at:
  assumes pre: "bulk_loop e 0 pre s [] [] = Inr (s1, cs, es)"
    and rej: "bulk_loop e (length pre) [data] s1 [] [] = Inr (s1, [], [m])"
  shows "BulkCreateCustomers_mutate e s (pre @ data # rest) =
           (case bulk_loop e (Suc (length pre)) rest s1 [] [] of
              Inl x \<Rightarrow> (Inl x, s)
            | Inr (s2, cs2, es2) \<Rightarrow> (Inr (cs @ cs2, es @ m # es2), s2))"
proof -
  have "bulk_loop e 0 (pre @ [data]) s [] [] = Inr (s1, cs, es @ [m])"
    using bulk_loop_append_Inr [OF pre rej] by simp
  then show ?thesis
    using BulkCreateCustomers_append [of e s "pre @ [data]" rest]
    by (simp split: sum.splits prod.splits)
qed

text \<open>
  The row number and the entries already in \<open>errors\<close> change neither the store nor the
  customers the loop produces; a rejected record leaves both as they were.
\<close>

lemma bulk_loop_row_numbers:
  "map_sum id (\<lambda>(s1, cs, es). (s1, cs)) (bulk_loop e i xs s created errors) =
   map_sum id (\<lambda>(s1, cs, es). (s1, cs)) (bulk_loop e j xs s created errors')"
proof (induction xs arbitrary: i j s created errors errors')
  case Nil
  show ?case by simp
next
  case (Cons data xs)
  consider (bad) "\<not> validate_email e (dict_get data ''email'')"
    | (dup) "validate_email e (dict_get data ''email'')" "email_exists s (dict_get data ''email'')"
    | (phone) "validate_email e (dict_get data ''email'')"
        "\<not> email_exists s (dict_get data ''email'')" "phone_rejected (dict_get data ''phone'')"
    | (new) "validate_email e (dict_get data ''email'')"
        "\<not> email_exists s (dict_get data ''email'')" "\<not> phone_rejected (dict_get data ''phone'')"
    by blast
  then show ?case
  proof cases
    case bad
    show ?thesis
      unfolding bulk_loop_invalid_email [OF bad] by (rule Cons.IH)
  next
    case dup
    show ?thesis
      unfolding bulk_loop_email_exists [OF dup] by (rule Cons.IH)
  next
    case phone
    show ?thesis
      unfolding bulk_loop_phone_rejected [OF phone] by (rule Cons.IH)
  next
    case new
    show ?thesis
    proof (cases "Customer_create e s (dict_get data ''name'') (dict_get data ''email'')
                    (dict_get data ''phone'')")
      case (Inl x)
      then show ?thesis by (simp add: bulk_loop_create [OF new])
    next
      case (Inr r)
      obtain c s' where r: "r = (c, s')" by (cases r)
      show ?thesis
        using Cons.IH [of "Suc i" s' "created @ [c]" errors "Suc j" errors']
        by (simp add: bulk_loop_create [OF new] Inr r)
    qed
  qed
qed

lemma bulk_loop_rejected:
  assumes "\<not> validate_email e (dict_get data ''email'') \<or>
           email_exists s (dict_get data ''email'') \<or> phone_rejected (dict_get data ''phone'')"
  shows "\<exists>m. bulk_loop e idx [data] s [] [] = Inr (s, [], [m])"
proof -
  consider (bad) "\<not> validate_email e (dict_get data ''email'')"
    | (dup) "validate_email e (dict_get data ''email'')" "email_exists s (dict_get data ''email'')"
    | (phone) "validate_email e (dict_get data ''email'')"
        "\<not> email_exists s (dict_get data ''email'')" "phone_rejected (dict_get data ''phone'')"
    using assms by blast
  then show ?thesis
  proof cases
    case bad
    from bulk_loop_single_invalid_email [OF bad] show ?thesis by blast
  next
    case dup
    from bulk_loop_single_email_exists [OF dup] show ?thesis by blast
  next
    case phone
    from bulk_loop_single_phone_rejected [OF phone] show ?thesis by blast
  qed
qed

lemma BulkCreateCustomers_without_rejected:
  assumes pre: "bulk_loop e 0 pre s [] [] = Inr (s1, cs, es)"
    and rej: "bulk_loop e (length pre) [data] s1 [] [] = Inr (s1, [], [m])"
  shows "snd (BulkCreateCustomers_mutate e s (pre @ data # rest)) =
           snd (BulkCreateCustomers_mutate e s (pre @ rest)) \<and>
         map_sum id fst (fst (BulkCreateCustomers_mutate e s (pre @ data # rest))) =
           map_sum id fst (fst (BulkCreateCustomers_mutate e s (pre @ rest)))"
proof -
  have with_row: "BulkCreateCustomers_mutate e s (pre @ data # rest) =
      (case bulk_loop e (Suc (length pre)) rest s1 [] [] of
         Inl x \<Rightarrow> (Inl x, s)
       | Inr (s2, cs2, es2) \<Rightarrow> (Inr (cs @ cs2, es @ m # es2), s2))"
    by (rule BulkCreateCustomers_rejected_at [OF pre rej])
  have without: "BulkCreateCustomers_mutate e s (pre @ rest) =
      (case bulk_loop e (length pre) rest s1 [] [] of
         Inl x \<Rightarrow> (Inl x, s)
       | Inr (s2, cs2, es2) \<Rightarrow> (Inr (cs @ cs2, es @ es2), s2))"
    by (simp add: BulkCreateCustomers_append pre)
  have same: "map_sum id (\<lambda>(s1, cs, es). (s1, cs)) (bulk_loop e (Suc (length pre)) rest s1 [] []) =
      map_sum id (\<lambda>(s1, cs, es). (s1, cs)) (bulk_loop e (length pre) rest s1 [] [])"
    by (rule bulk_loop_row_numbers)
  show ?thesis
  proof (cases "bulk_loop e (length pre) rest s1 [] []")
    case (Inl x)
    with same have "bulk_loop e (Suc (length pre)) rest s1 [] [] = Inl x"
      by (cases "bulk_loop e (Suc (length pre)) rest s1 [] []") auto
    with Inl show ?thesis by (simp add: with_row without)
  next
    case (Inr r)
    obtain s2 cs2 es2 where r: "r = (s2, cs2, es2)" by (cases r)
    from same Inr r obtain es2' where
      "bulk_loop e (Suc (length pre)) rest s1 [] [] = Inr (s2, cs2, es2')"
      by (cases "bulk_loop e (Suc (length pre)) rest s1 [] []") auto
    with Inr r show ?thesis by (simp add: with_row without)
  qed
qed

lemmas run_bulk =
  BulkCreateCustomers_mutate_def transaction_atomic_def bulk_loop.simps(2) Let_def
  Customer_create_def dict_get_def plain_env_def validateEmail_def email_exists_def
  str_of_nat.simps digit_of_def startswith_def isdigit_def isdigit_char_def replace_char_def
  new_id_def

lemma dict_get_rec_alice:
  "dict_get rec_alice ''name'' = PStr ''Alice''"
  "dict_get rec_alice ''email'' = PStr ''alice@example.com''"
  "dict_get rec_alice ''phone'' = PStr ''+1234567890''"
  by (simp_all add: dict_get_def rec_alice_def)

lemma dict_get_rec_noname:
  "dict_get rec_noname ''name'' = PNone"
  "dict_get rec_noname ''email'' = PStr ''bob@example.com''"
  "dict_get rec_noname ''phone'' = PNone"
  by (simp_all add: dict_get_def rec_noname_def)

lemma validateEmail_examples:
  "validateEmail (PStr ''alice@example.com'')"
  "validateEmail (PStr ''bob@example.com'')"
  "\<not> validateEmail (PStr ''not-an-email'')"
  "\<not> validateEmail PNone"
  by (simp_all add: validateEmail_def)

lemma phone_alice: "\<not> phone_rejected (PStr ''+1234567890'')"
  by (simp add: startswith_def)

lemma strict_alice:
  "bulk_loop strict_env 0 [rec_alice] empty_store [] [] =
     Inr (empty_store\<lparr>customers := [row_alice]\<rparr>, [row_alice], [])"
proof -
  have v: "validate_email strict_env (dict_get rec_alice ''email'')"
    by (simp add: dict_get_rec_alice strict_env_def validateEmail_examples)
  have u: "\<not> email_exists empty_store (dict_get rec_alice ''email'')"
    by (simp add: email_exists_def empty_store_def)
  have p: "\<not> phone_rejected (dict_get rec_alice ''phone'')"
    by (simp only: dict_get_rec_alice phone_alice not_False_eq_True)
  have f: "create_raises strict_env empty_store (dict_get rec_alice ''name'')
             (dict_get rec_alice ''email'') (dict_get rec_alice ''phone'') = None"
    by (simp add: dict_get_rec_alice strict_env_def)
  show ?thesis
    using bulk_loop_single_created [OF v u p f, of 0]
    by (simp add: dict_get_rec_alice empty_store_def new_id_def row_alice_def)
qed


section \<open>CreateCustomer: validation order and the unchecked name\<close>

text \<open>
  Claim C4. A call of \<open>createCustomer\<close> reports the first failing check, in the order email
  format, email uniqueness, phone format, with the messages "Invalid email format",
  "Email already exists" and "Invalid phone format"; the customer of the response is null
  and the store is the one the call received. Whenever the response carries a null
  customer, one of the three checks failed and the store is unchanged.
\<close>

theorem CreateCustomer_first_failure:
  "(\<not> validate_email e (PStr email) \<longrightarrow>
      CreateCustomer_mutate e s name email phone = (Inr (None, ''Invalid email format''), s)) \<and>
   (validate_email e (PStr email) \<and> email_exists s (PStr email) \<longrightarrow>
      CreateCustomer_mutate e s name email phone = (Inr (None, ''Email already exists''), s)) \<and>
   (validate_email e (PStr email) \<and> \<not> email_exists s (PStr email) \<and> phone_rejected phone \<longrightarrow>
      CreateCustomer_mutate e s name email phone = (Inr (None, ''Invalid phone format''), s)) \<and>
   (fst (CreateCustomer_mutate e s name email phone) = Inr (None, m) \<longrightarrow>
      snd (CreateCustomer_mutate e s name email phone) = s \<and>
      (\<not> validate_email e (PStr email) \<or> email_exists s (PStr email) \<or> phone_rejected phone))"
  by (auto simp: CreateCustomer_mutate_def split: sum.splits prod.splits)

theorem CreateCustomer_first_failure_witness:
  "CreateCustomer_mutate plain_env empty_store ''Al'' ''bad'' (PStr ''x'')
     = (Inr (None, ''Invalid email format''), empty_store) \<and>
   CreateCustomer_mutate plain_env shop ''Bo'' ''alice@example.com'' (PStr ''x'')
     = (Inr (None, ''Email already exists''), shop) \<and>
   CreateCustomer_mutate plain_env empty_store ''Al'' ''al@x.org'' (PStr ''x'')
     = (Inr (None, ''Invalid phone format''), empty_store)"
  using CreateCustomer_first_failure [of plain_env "''bad''" empty_store "''Al''" "PStr ''x''"]
        CreateCustomer_first_failure [of plain_env "''alice@example.com''" shop "''Bo''" "PStr ''x''"]
        CreateCustomer_first_failure [of plain_env "''al@x.org''" empty_store "''Al''" "PStr ''x''"]
  by (simp add: plain_env_def validateEmail_def empty_store_def shop_def email_exists_def
        startswith_def isdigit_def replace_char_def isdigit_char_def)

text \<open>
  Claim C10. \<open>createCustomer\<close> never looks at the name: for every name, the empty string
  included, a call whose email passes the validator and is not in the store, and whose
  phone is absent or passes the phone test, stores a customer with that very name and
  answers "Customer created successfully", provided the store accepts the row.
\<close>

theorem CreateCustomer_name_unchecked:
  assumes "validate_email e (PStr email)"
    and "\<not> email_exists s (PStr email)"
    and "\<not> phone_rejected phone"
    and "create_raises e s (PStr name) (PStr email) phone = None"
  shows "CreateCustomer_mutate e s name email phone =
           (Inr (Some \<lparr>c_id = new_id (map c_id (customers s)), c_name = PStr name,
                        c_email = PStr email, c_phone = phone\<rparr>,
                 ''Customer created successfully''),
            s\<lparr>customers := customers s @
                 [\<lparr>c_id = new_id (map c_id (customers s)), c_name = PStr name,
                   c_email = PStr email, c_phone = phone\<rparr>]\<rparr>)"
  using assms by (simp add: CreateCustomer_mutate_def Customer_create_def Let_def)

theorem CreateCustomer_name_unchecked_witness:
  "CreateCustomer_mutate plain_env empty_store '''' ''al@x.org'' PNone =
     (Inr (Some \<lparr>c_id = 1, c_name = PStr '''', c_email = PStr ''al@x.org'', c_phone = PNone\<rparr>,
           ''Customer created successfully''),
      \<lparr>customers = [\<lparr>c_id = 1, c_name = PStr '''', c_email = PStr ''al@x.org'', c_phone = PNone\<rparr>],
        products = [], orders = []\<rparr>)"
proof -
  have v: "validate_email plain_env (PStr ''al@x.org'')"
    by (simp add: plain_env_def validateEmail_def)
  have u: "\<not> email_exists empty_store (PStr ''al@x.org'')"
    by (simp add: email_exists_def empty_store_def)
  have p: "\<not> phone_rejected PNone" by simp
  have f: "create_raises plain_env empty_store (PStr '''') (PStr ''al@x.org'') PNone = None"
    by (simp add: plain_env_def)
  show ?thesis
    using CreateCustomer_name_unchecked [OF v u p f]
    by (simp add: empty_store_def new_id_def)
qed


section \<open>CreateOrder: lookups, totals and failures\<close>

lemma Customer_get_Some:
  assumes "key_of_id e customer_id = Some k"
    and "k \<in> set (map c_id (customers s))"
  shows "\<exists>c. Customer_get e s customer_id = Inr (Some c) \<and> c_id c = k"
proof (cases "find (\<lambda>c. c_id c = k) (customers s)")
  case None
  then show ?thesis using assms(2) by (auto simp: find_None_iff)
next
  case (Some c)
  then show ?thesis using assms(1) by (auto simp: Customer_get_def find_Some_iff)
qed

lemma Customer_get_None:
  assumes "key_of_id e customer_id = Some k"
    and "k \<notin> set (map c_id (customers s))"
  shows "Customer_get e s customer_id = Inr None"
  using assms by (auto simp: Customer_get_def find_None_iff)

lemma keys_of_ids_length: "keys_of_ids e ids = Some ks \<Longrightarrow> length ks = length ids"
  by (induction ids arbitrary: ks) (auto split: option.splits)

lemma length_filter_pk_in:
  assumes "distinct (map p_id ps)"
  shows "length (filter (\<lambda>p. p_id p \<in> A) ps) = card (A \<inter> set (map p_id ps))"
proof -
  have d: "distinct (map p_id (filter (\<lambda>p. p_id p \<in> A) ps))"
    using assms by (rule distinct_map_filter)
  have "length (filter (\<lambda>p. p_id p \<in> A) ps) = length (map p_id (filter (\<lambda>p. p_id p \<in> A) ps))"
    by simp
  also have "\<dots> = card (set (map p_id (filter (\<lambda>p. p_id p \<in> A) ps)))"
    using d by (simp only: distinct_card)
  also have "set (map p_id (filter (\<lambda>p. p_id p \<in> A) ps)) = A \<inter> set (map p_id ps)"
    by auto
  finally show ?thesis .
qed

lemma length_products_in:
  assumes "distinct (map p_id (products s))"
    and "set ks \<subseteq> set (map p_id (products s))"
  shows "length (products_in s ks) = card (set ks)"
  using length_filter_pk_in [OF assms(1), of "set ks"] assms(2)
  by (simp add: products_in_def Int_absorb2)

lemma decimal_key_examples:
  "decimal_key ''1'' = Some 1"
  "decimal_key ''2'' = Some 2"
  "decimal_key ''007'' = Some 7"
  "decimal_key ''abc'' = None"
  "decimal_key ''x1'' = None"
  by (simp_all add: decimal_key_def)

text \<open>
  Claim C8, as the code has it. A call of \<open>createOrder\<close> whose customer id is the text of
  a key that no customer has answers a null order with "Invalid customer ID <id>", the id
  as it was given, and returns the store it received: no order, no association and no
  other row is written. A customer id whose text is no key makes
  \<open>Customer.objects.get\<close> raise; the exception escapes the call, which gives no response
  and returns the store it received.
\<close>

theorem CreateOrder_unknown_customer:
  "(key_of_id e customer_id = Some k \<and> k \<notin> set (map c_id (customers s)) \<longrightarrow>
      CreateOrder_mutate e s customer_id product_ids order_date =
        (Inr (None, ''Invalid customer ID '' @ customer_id), s)) \<and>
   (key_of_id e customer_id = None \<longrightarrow>
      CreateOrder_mutate e s customer_id product_ids order_date = (Inl ValueError, s))"
proof (rule conjI; rule impI)
  assume "key_of_id e customer_id = Some k \<and> k \<notin> set (map c_id (customers s))"
  then have "Customer_get e s customer_id = Inr None"
    using Customer_get_None [of e customer_id k s] by blast
  then show "CreateOrder_mutate e s customer_id product_ids order_date =
        (Inr (None, ''Invalid customer ID '' @ customer_id), s)"
    by (simp add: CreateOrder_mutate_def)
next
  assume "key_of_id e customer_id = None"
  then have "Customer_get e s customer_id = Inl ValueError"
    by (simp add: Customer_get_def)
  then show "CreateOrder_mutate e s customer_id product_ids order_date = (Inl ValueError, s)"
    by (simp add: CreateOrder_mutate_def)
qed

theorem CreateOrder_unknown_customer_witness:
  "CreateOrder_mutate plain_env shop ''007'' [''1'', ''2''] None =
     (Inr (None, ''Invalid customer ID 007''), shop) \<and>
   CreateOrder_mutate plain_env shop ''x1'' [''1'', ''2''] None = (Inl ValueError, shop)"
proof -
  have a: "key_of_id plain_env ''007'' = Some 7 \<and> 7 \<notin> set (map c_id (customers shop))"
    by (simp add: plain_env_def decimal_key_examples shop_def)
  have b: "key_of_id plain_env ''x1'' = None"
    by (simp add: plain_env_def decimal_key_examples)
  from CreateOrder_unknown_customer [of plain_env "''007''" 7 shop "[''1'', ''2'']" None,
      THEN conjunct1, THEN mp, OF a]
    CreateOrder_unknown_customer [of plain_env "''x1''" 7 shop "[''1'', ''2'']" None,
      THEN conjunct2, THEN mp, OF b]
  show ?thesis by simp
qed

text \<open>
  The id \<open>abc\<close> refers to no customer of \<open>shop\<close>, and the call for it gives no response
  at all: \<open>Customer.objects.get(pk="abc")\<close> raises \<open>ValueError\<close>, which only an
  \<open>except Customer.DoesNotExist\<close> stands to catch.
\<close>

theorem CreateOrder_unknown_customer_counterexample:
  "key_of_id plain_env ''abc'' = None \<and>
   fst (CreateOrder_mutate plain_env shop ''abc'' [''1''] None) = Inl ValueError \<and>
   fst (CreateOrder_mutate plain_env shop ''abc'' [''1''] None)
     \<noteq> Inr (None, ''Invalid customer ID abc'')"
  by (simp add: CreateOrder_mutate_def Customer_get_def plain_env_def decimal_key_examples)

text \<open>
  Claim C5. In a store whose product keys are unique, a call of \<open>createOrder\<close> for an
  existing customer whose \<open>product_ids\<close> all denote keys of products, one of them listed
  more than once, matches fewer products than it lists ids: it answers a null order with
  "Some product IDs are invalid" and returns the store it received.
\<close>

theorem CreateOrder_duplicate_ids:
  assumes cust: "key_of_id e customer_id = Some k"
    and exists: "k \<in> set (map c_id (customers s))"
    and keys: "keys_of_ids e product_ids = Some ks"
    and known: "set ks \<subseteq> set (map p_id (products s))"
    and dup: "\<not> distinct ks"
    and pk: "distinct (map p_id (products s))"
  shows "Product_filter_pk_in e s product_ids = Inr (products_in s ks) \<and>
         length (products_in s ks) < length product_ids \<and>
         CreateOrder_mutate e s customer_id product_ids order_date =
           (Inr (None, ''Some product IDs are invalid''), s)"
proof -
  obtain c where c: "Customer_get e s customer_id = Inr (Some c)"
    using Customer_get_Some [OF cust exists] by blast
  have matched: "Product_filter_pk_in e s product_ids = Inr (products_in s ks)"
    by (simp add: Product_filter_pk_in_def keys)
  have len: "length (products_in s ks) = card (set ks)"
    by (rule length_products_in [OF pk known])
  have "card (set ks) < length ks"
    using dup card_length [of ks] distinct_card [of ks]
    by (metis card_distinct le_neq_implies_less)
  then have less: "length (products_in s ks) < length product_ids"
    using len keys_of_ids_length [OF keys] by simp
  have "ks \<noteq> []" using dup by auto
  then have "card (set ks) \<noteq> 0" by simp
  then have nonempty: "products_in s ks \<noteq> []"
    using len by auto
  show ?thesis
    using c matched less nonempty by (simp add: CreateOrder_mutate_def)
qed

theorem CreateOrder_duplicate_ids_witness:
  "Product_filter_pk_in plain_env shop [''1'', ''1''] = Inr (products_in shop [1, 1]) \<and>
   length (products_in shop [1, 1]) < length [''1'', ''1''] \<and>
   CreateOrder_mutate plain_env shop ''1'' [''1'', ''1''] None =
     (Inr (None, ''Some product IDs are invalid''), shop)"
proof -
  have a: "key_of_id plain_env ''1'' = Some 1"
    by (simp add: plain_env_def decimal_key_examples)
  have a': "(1::int) \<in> set (map c_id (customers shop))" by (simp add: shop_def)
  have k: "keys_of_ids plain_env [''1'', ''1''] = Some [1, 1]"
    by (simp add: a)
  have b: "set [1, 1 :: int] \<subseteq> set (map p_id (products shop))" by (simp add: shop_def)
  have c: "\<not> distinct [1, 1 :: int]" by simp
  have d: "distinct (map p_id (products shop))" by (simp add: shop_def)
  show ?thesis using CreateOrder_duplicate_ids [OF a a' k b c d, of None] by simp
qed

text \<open>What a call of \<open>createOrder\<close> that returns an order has done.\<close>

lemma CreateOrder_returns_order:
  assumes "CreateOrder_mutate e s customer_id product_ids order_date = (Inr (Some ord, msg), s')"
  shows "\<exists>ks. keys_of_ids e product_ids = Some ks \<and>
           o_total_amount ord = sum_list (map p_price (products_in s ks)) \<and>
           o_products ord = map p_id (products_in s ks) \<and>
           set (o_products ord) \<subseteq> set ks \<and>
           length (o_products ord) = length product_ids \<and>
           product_ids \<noteq> [] \<and>
           key_of_id e customer_id = Some (o_customer ord) \<and>
           o_customer ord \<in> set (map c_id (customers s)) \<and>
           msg = ''Order created successfully'' \<and>
           s' = s\<lparr>orders := orders s @ [ord]\<rparr> \<and>
           o_total_amount ord = sum_list (map p_price (products_in s' (o_products ord)))"
proof -
  from assms obtain c where get: "Customer_get e s customer_id = Inr (Some c)"
    by (auto simp: CreateOrder_mutate_def split: sum.splits option.splits)
  then obtain k where k: "key_of_id e customer_id = Some k"
    and found: "find (\<lambda>c. c_id c = k) (customers s) = Some c"
    by (auto simp: Customer_get_def split: option.splits)
  from found have cid: "c_id c = k" and cin: "c \<in> set (customers s)"
    by (auto simp: find_Some_iff)
  from assms get obtain ks where keys: "keys_of_ids e product_ids = Some ks"
    by (auto simp: CreateOrder_mutate_def Product_filter_pk_in_def
          split: sum.splits option.splits)
  let ?ps = "products_in s ks"
  have matched: "Product_filter_pk_in e s product_ids = Inr ?ps"
    by (simp add: Product_filter_pk_in_def keys)
  have ne: "?ps \<noteq> []" and len: "length ?ps = length product_ids"
    using assms get matched by (auto simp: CreateOrder_mutate_def split: if_splits)
  have ord: "ord = \<lparr>o_id = new_id (map o_id (orders s)), o_customer = c_id c,
                    o_products = map p_id ?ps, o_total_amount = sum_list (map p_price ?ps),
                    o_order_date = order_date\<rparr>"
    and s': "s' = s\<lparr>orders := orders s @ [ord]\<rparr>"
    and msg: "msg = ''Order created successfully''"
    using assms get matched ne len by (auto simp: CreateOrder_mutate_def Let_def)
  have same: "products_in s' (map p_id ?ps) = ?ps"
    unfolding s' products_in_def
    by (auto intro!: filter_cong simp: filter_filter)
  have pne: "product_ids \<noteq> []" using ne len by auto
  have "o_total_amount ord = sum_list (map p_price ?ps) \<and>
        o_products ord = map p_id ?ps \<and>
        set (o_products ord) \<subseteq> set ks \<and>
        length (o_products ord) = length product_ids \<and>
        product_ids \<noteq> [] \<and>
        key_of_id e customer_id = Some (o_customer ord) \<and>
        o_customer ord \<in> set (map c_id (customers s)) \<and>
        msg = ''Order created successfully'' \<and>
        s' = s\<lparr>orders := orders s @ [ord]\<rparr> \<and>
        o_total_amount ord = sum_list (map p_price (products_in s' (o_products ord)))"
    using cid cin k pne len same msg s' by (auto simp: ord products_in_def)
  with keys show ?thesis by blast
qed

text \<open>When every id resolves, the call returns an order.\<close>

lemma CreateOrder_succeeds:
  assumes cust: "key_of_id e customer_id = Some k"
    and exists: "k \<in> set (map c_id (customers s))"
    and keys: "keys_of_ids e product_ids = Some ks"
    and ne: "product_ids \<noteq> []"
    and nodup: "distinct ks"
    and known: "set ks \<subseteq> set (map p_id (products s))"
    and pk: "distinct (map p_id (products s))"
  shows "\<exists>new. CreateOrder_mutate e s customer_id product_ids order_date =
           (Inr (Some new, ''Order created successfully''), s\<lparr>orders := orders s @ [new]\<rparr>)"
proof -
  obtain c where c: "Customer_get e s customer_id = Inr (Some c)"
    using Customer_get_Some [OF cust exists] by blast
  have matched: "Product_filter_pk_in e s product_ids = Inr (products_in s ks)"
    by (simp add: Product_filter_pk_in_def keys)
  have "length (products_in s ks) = card (set ks)"
    by (rule length_products_in [OF pk known])
  then have len: "length (products_in s ks) = length product_ids"
    using nodup keys_of_ids_length [OF keys] by (simp add: distinct_card)
  then have nonempty: "products_in s ks \<noteq> []"
    using ne by auto
  show ?thesis
    using c matched len nonempty by (simp add: CreateOrder_mutate_def Let_def)
qed

lemma CreateOrder_frame:
  assumes "\<nexists>ord msg. fst (CreateOrder_mutate e s customer_id product_ids order_date)
             = Inr (Some ord, msg)"
  shows "snd (CreateOrder_mutate e s customer_id product_ids order_date) = s"
  using assms
  by (auto simp: CreateOrder_mutate_def Let_def split: sum.splits option.splits if_splits)

text \<open>No mutation breaks the totals of the orders of the store.\<close>

lemma foldr_max_ge: "x \<in> set ids \<Longrightarrow> x \<le> foldr max ids (0::int)"
  by (induction ids) (auto simp: max_def)

lemma new_id_fresh: "new_id ids \<notin> set ids"
proof
  assume "new_id ids \<in> set ids"
  then have "new_id ids \<le> foldr max ids 0" by (rule foldr_max_ge)
  then show False by (simp add: new_id_def)
qed

lemma order_total_ok_cong:
  "products s' = products s \<Longrightarrow> order_total_ok s' ord = order_total_ok s ord"
  by (simp add: order_total_ok_def products_in_def)

lemma CreateCustomer_frame:
  "products (snd (CreateCustomer_mutate e s name email phone)) = products s \<and>
   orders (snd (CreateCustomer_mutate e s name email phone)) = orders s"
  by (auto simp: CreateCustomer_mutate_def Customer_create_def Let_def
        split: option.splits)

lemma BulkCreateCustomers_frame:
  "products (snd (BulkCreateCustomers_mutate e s input)) = products s \<and>
   orders (snd (BulkCreateCustomers_mutate e s input)) = orders s"
proof (cases "bulk_loop e 0 input s [] []")
  case (Inl x)
  then show ?thesis
    by (simp add: BulkCreateCustomers_mutate_def transaction_atomic_def)
next
  case (Inr r)
  obtain s1 cs es where r: "r = (s1, cs, es)" by (cases r)
  from bulk_loop_store [OF Inr [unfolded r]] obtain new where
    "s1 = s\<lparr>customers := customers s @ new\<rparr>" by blast
  then show ?thesis
    using Inr by (simp add: r BulkCreateCustomers_mutate_def transaction_atomic_def)
qed

lemma CreateProduct_keeps_totals:
  assumes "\<forall>ord \<in> set (orders s). order_total_ok s ord"
  shows "\<forall>ord \<in> set (orders (snd (CreateProduct_mutate s pname price stock))).
           order_total_ok (snd (CreateProduct_mutate s pname price stock)) ord"
proof (cases "price \<le> 0 \<or> stock < 0")
  case True
  then show ?thesis using assms by (auto simp: CreateProduct_mutate_def)
next
  case False
  let ?p = "\<lparr>p_id = new_id (map p_id (products s)), p_name = pname,
              p_price = price, p_stock = stock\<rparr>"
  have s': "snd (CreateProduct_mutate s pname price stock) = s\<lparr>products := products s @ [?p]\<rparr>"
    using False by (simp add: CreateProduct_mutate_def Let_def)
  show ?thesis
  proof
    fix ord
    assume "ord \<in> set (orders (snd (CreateProduct_mutate s pname price stock)))"
    then have "ord \<in> set (orders s)" by (simp add: s')
    with assms have ok: "order_total_ok s ord" by blast
    then have "p_id ?p \<notin> set (o_products ord)"
      using new_id_fresh [of "map p_id (products s)"] by (auto simp: order_total_ok_def)
    with ok show "order_total_ok (snd (CreateProduct_mutate s pname price stock)) ord"
      by (auto simp: s' order_total_ok_def products_in_def)
  qed
qed

lemma CreateOrder_keeps_totals:
  assumes "\<forall>ord \<in> set (orders s). order_total_ok s ord"
  shows "\<forall>ord \<in> set (orders (snd (CreateOrder_mutate e s customer_id product_ids order_date))).
           order_total_ok (snd (CreateOrder_mutate e s customer_id product_ids order_date)) ord"
proof (cases "\<exists>new msg. fst (CreateOrder_mutate e s customer_id product_ids order_date)
                 = Inr (Some new, msg)")
  case False
  then have "snd (CreateOrder_mutate e s customer_id product_ids order_date) = s"
    by (rule CreateOrder_frame)
  with assms show ?thesis by simp
next
  case True
  then obtain new msg s' where run:
    "CreateOrder_mutate e s customer_id product_ids order_date = (Inr (Some new, msg), s')"
    by (metis prod.collapse)
  from CreateOrder_returns_order [OF run] obtain ks where
    s': "s' = s\<lparr>orders := orders s @ [new]\<rparr>"
    and prods: "o_products new = map p_id (products_in s ks)"
    and total: "o_total_amount new = sum_list (map p_price (products_in s' (o_products new)))"
    by blast
  have same: "products s' = products s" by (simp add: s')
  have new_ok: "order_total_ok s' new"
    using prods total same by (auto simp: order_total_ok_def products_in_def)
  have old_ok: "order_total_ok s' ord" if "ord \<in> set (orders s)" for ord
    using assms that order_total_ok_cong [OF same] by blast
  show ?thesis
    using new_ok old_ok by (auto simp: run s')
qed

lemma reachable_totals:
  "reachable e s \<Longrightarrow> \<forall>ord \<in> set (orders s). order_total_ok s ord"
proof (induction rule: reachable.induct)
  case initial
  show ?case by (simp add: empty_store_def)
next
  case (create_customer s name email phone)
  let ?s' = "snd (CreateCustomer_mutate e s name email phone)"
  have "products ?s' = products s" "orders ?s' = orders s"
    using CreateCustomer_frame [of e s name email phone] by simp_all
  with create_customer.IH show ?case
    using order_total_ok_cong [of ?s' s] by simp
next
  case (bulk_create_customers s input)
  let ?s' = "snd (BulkCreateCustomers_mutate e s input)"
  have "products ?s' = products s" "orders ?s' = orders s"
    using BulkCreateCustomers_frame [of e s input] by simp_all
  with bulk_create_customers.IH show ?case
    using order_total_ok_cong [of ?s' s] by simp
next
  case (create_product s pname price stock)
  from create_product.IH show ?case by (rule CreateProduct_keeps_totals)
next
  case (create_order s customer_id product_ids order_date)
  from create_order.IH show ?case by (rule CreateOrder_keeps_totals)
qed

lemma reachable_shop: "reachable plain_env shop"
proof -
  let ?s1 = "\<lparr>customers = [\<lparr>c_id = 1, c_name = PStr ''Alice'', c_email = PStr ''alice@example.com'',
                            c_phone = PStr ''+1234567890''\<rparr>], products = [], orders = []\<rparr>"
  let ?s2 = "?s1\<lparr>products := [\<lparr>p_id = 1, p_name = ''Laptop'', p_price = 99999 / 100,
                                  p_stock = 10\<rparr>]\<rparr>"
  have e1: "snd (CreateCustomer_mutate plain_env empty_store ''Alice'' ''alice@example.com''
                  (PStr ''+1234567890'')) = ?s1"
    by (simp add: CreateCustomer_mutate_def Customer_create_def plain_env_def validateEmail_def
          email_exists_def empty_store_def startswith_def new_id_def Let_def)
  have e2: "snd (CreateProduct_mutate ?s1 ''Laptop'' (99999 / 100) 10) = ?s2"
    by (simp add: CreateProduct_mutate_def new_id_def Let_def)
  have e3: "snd (CreateProduct_mutate ?s2 ''Phone'' (49999 / 100) 20) = shop"
    by (simp add: CreateProduct_mutate_def new_id_def Let_def shop_def)
  have "reachable plain_env ?s1"
    using reachable.create_customer [OF reachable.initial, of plain_env "''Alice''"
        "''alice@example.com''" "PStr ''+1234567890''"]
    by (simp only: e1)
  then have "reachable plain_env ?s2"
    using reachable.create_product [of plain_env ?s1 "''Laptop''" "99999 / 100" 10]
    by (simp only: e2)
  then show ?thesis
    using reachable.create_product [of plain_env ?s2 "''Phone''" "49999 / 100" 20]
    by (simp only: e3)
qed

text \<open>
  Claim C3. Whenever \<open>createOrder\<close> returns an order, the customer exists, the id list is
  not empty and every id resolved (as many products matched as ids were given); the order's
  \<open>total_amount\<close> is the exact sum of the prices of the matched products, which are the
  products the order refers to; and the order stored is that order, appended to the orders
  of the store, the rest of the store being as before. A call for an existing customer
  with a non-empty list of ids of distinct products of a store with unique product keys
  does return such an order. Moreover, in every store the mutations produce from the empty
  store, every order refers to products of the store and its \<open>total_amount\<close> is the sum
  of their prices.
\<close>

theorem CreateOrder_total_amount:
  "(CreateOrder_mutate e s customer_id product_ids order_date = (Inr (Some ord, msg), s') \<longrightarrow>
      (\<exists>ks. keys_of_ids e product_ids = Some ks \<and>
         o_total_amount ord = sum_list (map p_price (products_in s ks)) \<and>
         o_products ord = map p_id (products_in s ks) \<and>
         set (o_products ord) \<subseteq> set ks \<and>
         length (o_products ord) = length product_ids \<and>
         product_ids \<noteq> [] \<and>
         key_of_id e customer_id = Some (o_customer ord) \<and>
         o_customer ord \<in> set (map c_id (customers s)) \<and>
         msg = ''Order created successfully'' \<and>
         s' = s\<lparr>orders := orders s @ [ord]\<rparr>)) \<and>
   (key_of_id e customer_id = Some k \<and> k \<in> set (map c_id (customers s)) \<and>
    keys_of_ids e product_ids = Some keys \<and> product_ids \<noteq> [] \<and>
    distinct keys \<and> set keys \<subseteq> set (map p_id (products s)) \<and>
    distinct (map p_id (products s)) \<longrightarrow>
      (\<exists>new. CreateOrder_mutate e s customer_id product_ids order_date =
         (Inr (Some new, ''Order created successfully''), s\<lparr>orders := orders s @ [new]\<rparr>) \<and>
         o_total_amount new = sum_list (map p_price (products_in s keys)))) \<and>
   (reachable e s0 \<longrightarrow>
      (\<forall>o' \<in> set (orders s0).
         set (o_products o') \<subseteq> set (map p_id (products s0)) \<and>
         o_total_amount o' = sum_list (map p_price (products_in s0 (o_products o')))))"
proof -
  have returned:
    "\<exists>ks. keys_of_ids e product_ids = Some ks \<and>
         o_total_amount ord = sum_list (map p_price (products_in s ks)) \<and>
         o_products ord = map p_id (products_in s ks) \<and>
         set (o_products ord) \<subseteq> set ks \<and>
         length (o_products ord) = length product_ids \<and>
         product_ids \<noteq> [] \<and>
         key_of_id e customer_id = Some (o_customer ord) \<and>
         o_customer ord \<in> set (map c_id (customers s)) \<and>
         msg = ''Order created successfully'' \<and>
         s' = s\<lparr>orders := orders s @ [ord]\<rparr>"
    if "CreateOrder_mutate e s customer_id product_ids order_date = (Inr (Some ord, msg), s')"
    using CreateOrder_returns_order [OF that] by blast
  have succeeds:
    "\<exists>new. CreateOrder_mutate e s customer_id product_ids order_date =
         (Inr (Some new, ''Order created successfully''), s\<lparr>orders := orders s @ [new]\<rparr>) \<and>
         o_total_amount new = sum_list (map p_price (products_in s keys))"
    if a: "key_of_id e customer_id = Some k \<and> k \<in> set (map c_id (customers s)) \<and>
       keys_of_ids e product_ids = Some keys \<and> product_ids \<noteq> [] \<and>
       distinct keys \<and> set keys \<subseteq> set (map p_id (products s)) \<and>
       distinct (map p_id (products s))"
  proof -
    from a obtain new where run: "CreateOrder_mutate e s customer_id product_ids order_date =
           (Inr (Some new, ''Order created successfully''), s\<lparr>orders := orders s @ [new]\<rparr>)"
      using CreateOrder_succeeds [of e customer_id k s product_ids keys order_date] by blast
    from CreateOrder_returns_order [OF run] a
    have "o_total_amount new = sum_list (map p_price (products_in s keys))"
      by auto
    with run show ?thesis by blast
  qed
  have invariant:
    "\<forall>o' \<in> set (orders s0).
         set (o_products o') \<subseteq> set (map p_id (products s0)) \<and>
         o_total_amount o' = sum_list (map p_price (products_in s0 (o_products o')))"
    if "reachable e s0"
    using reachable_totals [OF that] by (simp add: order_total_ok_def)
  from returned succeeds invariant show ?thesis by blast
qed

theorem CreateOrder_total_amount_witness:
  "CreateOrder_mutate plain_env shop ''1'' [''2'', ''1''] (Some 5) =
     (Inr (Some \<lparr>o_id = 1, o_customer = 1, o_products = [1, 2], o_total_amount = 149998 / 100,
                 o_order_date = Some 5\<rparr>, ''Order created successfully''),
      shop\<lparr>orders := [\<lparr>o_id = 1, o_customer = 1, o_products = [1, 2],
                        o_total_amount = 149998 / 100, o_order_date = Some 5\<rparr>]\<rparr>) \<and>
   sum_list (map p_price (products_in shop [2, 1])) = 149998 / 100 \<and>
   reachable plain_env
     (shop\<lparr>orders := [\<lparr>o_id = 1, o_customer = 1, o_products = [1, 2],
                        o_total_amount = 149998 / 100, o_order_date = Some 5\<rparr>]\<rparr>) \<and>
   sum_list (map p_price (products_in
     (shop\<lparr>orders := [\<lparr>o_id = 1, o_customer = 1, o_products = [1, 2],
                        o_total_amount = 149998 / 100, o_order_date = Some 5\<rparr>]\<rparr>) [1, 2]))
     = 149998 / 100"
proof -
  let ?ord = "\<lparr>o_id = 1, o_customer = 1, o_products = [1, 2], o_total_amount = 149998 / 100,
               o_order_date = Some 5\<rparr>"
  have k1: "key_of_id plain_env ''1'' = Some 1" and k2: "key_of_id plain_env ''2'' = Some 2"
    by (simp_all add: plain_env_def decimal_key_examples)
  have ks: "keys_of_ids plain_env [''2'', ''1''] = Some [2, 1]"
    by (simp add: k1 k2)
  have run: "CreateOrder_mutate plain_env shop ''1'' [''2'', ''1''] (Some 5) =
     (Inr (Some ?ord, ''Order created successfully''), shop\<lparr>orders := [?ord]\<rparr>)"
    by (simp add: CreateOrder_mutate_def Customer_get_def Product_filter_pk_in_def k1 k2
          products_in_def shop_def new_id_def Let_def)
  have reach: "reachable plain_env (shop\<lparr>orders := [?ord]\<rparr>)"
    using reachable.create_order [OF reachable_shop, of "''1''" "[''2'', ''1'']" "Some 5"]
    by (simp only: run snd_conv)
  note t = CreateOrder_total_amount [of plain_env shop "''1''" "[''2'', ''1'']" "Some 5" ?ord
      "''Order created successfully''" "shop\<lparr>orders := [?ord]\<rparr>" 1 "[2, 1]"
      "shop\<lparr>orders := [?ord]\<rparr>"]
  have pre: "key_of_id plain_env ''1'' = Some 1 \<and> (1::int) \<in> set (map c_id (customers shop)) \<and>
      keys_of_ids plain_env [''2'', ''1''] = Some [2, 1] \<and> [''2'', ''1''] \<noteq> [] \<and>
      distinct [2, 1 :: int] \<and> set [2, 1 :: int] \<subseteq> set (map p_id (products shop)) \<and>
      distinct (map p_id (products shop))"
    by (simp add: k1 k2 shop_def)
  note c1 = t [THEN conjunct1, THEN mp, OF run]
  note c2 = t [THEN conjunct2, THEN conjunct1, THEN mp, OF pre]
  note c3 = t [THEN conjunct2, THEN conjunct2, THEN mp, OF reach]
  from c2 run have a: "sum_list (map p_price (products_in shop [2, 1])) = 149998 / 100"
    by simp
  from c1 have "\<exists>ks. keys_of_ids plain_env [''2'', ''1''] = Some ks" by blast
  from c3 have b: "sum_list (map p_price (products_in (shop\<lparr>orders := [?ord]\<rparr>) [1, 2]))
      = 149998 / 100"
    by simp
  from run a reach b show ?thesis by blast
qed


section \<open>BulkCreateCustomers: the claims\<close>

text \<open>
  Claim C1. When an exception escapes the processing of a bulk call (a store-level fault
  of an insertion), the call leaves the store as it received it. In particular, when the
  records before the faulting one were processed, some of them passing every check and
  being inserted, and the insertion of the next record raises, the call ends with that
  exception and none of the earlier insertions remains.
\<close>

theorem BulkCreateCustomers_rollback:
  "(fst (BulkCreateCustomers_mutate e s input) = Inl x \<longrightarrow>
      snd (BulkCreateCustomers_mutate e s input) = s) \<and>
   (bulk_loop e 0 pre s [] [] = Inr (s1, cs, es) \<and>
    validate_email e (dict_get data ''email'') \<and>
    \<not> email_exists s1 (dict_get data ''email'') \<and>
    \<not> phone_rejected (dict_get data ''phone'') \<and>
    create_raises e s1 (dict_get data ''name'') (dict_get data ''email'')
      (dict_get data ''phone'') = Some x \<longrightarrow>
      BulkCreateCustomers_mutate e s (pre @ data # rest) = (Inl x, s))"
proof (intro conjI impI)
  assume "fst (BulkCreateCustomers_mutate e s input) = Inl x"
  then show "snd (BulkCreateCustomers_mutate e s input) = s"
    by (auto simp: BulkCreateCustomers_mutate_def transaction_atomic_def
          split: sum.splits prod.splits)
next
  assume a: "bulk_loop e 0 pre s [] [] = Inr (s1, cs, es) \<and>
    validate_email e (dict_get data ''email'') \<and>
    \<not> email_exists s1 (dict_get data ''email'') \<and>
    \<not> phone_rejected (dict_get data ''phone'') \<and>
    create_raises e s1 (dict_get data ''name'') (dict_get data ''email'')
      (dict_get data ''phone'') = Some x"
  then have "bulk_loop e (length pre) (data # rest) s1 [] [] = Inl x"
    by (simp add: bulk_loop_single_fault)
  with a show "BulkCreateCustomers_mutate e s (pre @ data # rest) = (Inl x, s)"
    by (simp add: BulkCreateCustomers_append)
qed

theorem BulkCreateCustomers_rollback_witness:
  "bulk_loop strict_env 0 [rec_alice] empty_store [] [] =
     Inr (empty_store\<lparr>customers := [row_alice]\<rparr>, [row_alice], []) \<and>
   BulkCreateCustomers_mutate strict_env empty_store [rec_alice, rec_noname] =
     (Inl IntegrityError, empty_store) \<and>
   snd (BulkCreateCustomers_mutate strict_env empty_store [rec_alice, rec_noname]) = empty_store"
proof -
  have v: "validate_email strict_env (dict_get rec_noname ''email'')"
    by (simp add: dict_get_rec_noname strict_env_def validateEmail_examples)
  have u: "\<not> email_exists (empty_store\<lparr>customers := [row_alice]\<rparr>) (dict_get rec_noname ''email'')"
    by (simp add: dict_get_rec_noname email_exists_def row_alice_def)
  have p: "\<not> phone_rejected (dict_get rec_noname ''phone'')"
    by (simp add: dict_get_rec_noname)
  have f: "create_raises strict_env (empty_store\<lparr>customers := [row_alice]\<rparr>)
             (dict_get rec_noname ''name'') (dict_get rec_noname ''email'')
             (dict_get rec_noname ''phone'') = Some IntegrityError"
    by (simp add: dict_get_rec_noname strict_env_def)
  note t = BulkCreateCustomers_rollback [of strict_env empty_store "[rec_alice, rec_noname]"
      IntegrityError "[rec_alice]" "empty_store\<lparr>customers := [row_alice]\<rparr>" "[row_alice]" "[]"
      rec_noname "[]"]
  from t strict_alice v u p f show ?thesis by simp
qed

text \<open>
  Claim C2. The uniqueness check of a record sees the customers created by the earlier
  records of the same call: a record whose email passes the validator and is the email of
  a customer created earlier in the call is rejected with "Row <i>: Email already exists
  (<email>)", the store and the created customers being those of the earlier records.
  In particular, of two records with the same valid email that is not in the store, the
  first (its phone acceptable, its insertion not faulting) is created and the second is
  rejected with "Row 2: Email already exists (<email>)".
\<close>

theorem BulkCreateCustomers_sequential_visibility:
  "(bulk_loop e 0 pre s [] [] = Inr (s1, cs, es) \<and>
    validate_email e (dict_get r ''email'') \<and>
    dict_get r ''email'' \<in> set (map c_email cs) \<longrightarrow>
      email_exists s1 (dict_get r ''email'') \<and>
      BulkCreateCustomers_mutate e s (pre @ [r]) =
        (Inr (cs, es @ [''Row '' @ str_of_nat (length pre + 1) @ '': Email already exists (''
                          @ py_str (dict_get r ''email'') @ '')'']), s1)) \<and>
   (dict_get r2 ''email'' = dict_get r1 ''email'' \<and>
    validate_email e (dict_get r1 ''email'') \<and>
    \<not> email_exists s (dict_get r1 ''email'') \<and>
    \<not> phone_rejected (dict_get r1 ''phone'') \<and>
    create_raises e s (dict_get r1 ''name'') (dict_get r1 ''email'') (dict_get r1 ''phone'') = None
    \<longrightarrow>
      BulkCreateCustomers_mutate e s [r1, r2] =
        (Inr ([created_row s r1],
              [''Row 2: Email already exists ('' @ py_str (dict_get r1 ''email'') @ '')'']),
         s\<lparr>customers := customers s @ [created_row s r1]\<rparr>))"
proof -
  have general:
    "email_exists s1 (dict_get r ''email'') \<and>
     BulkCreateCustomers_mutate e s (pre @ [r]) =
       (Inr (cs, es @ [''Row '' @ str_of_nat (length pre + 1) @ '': Email already exists (''
                         @ py_str (dict_get r ''email'') @ '')'']), s1)"
    if pre: "bulk_loop e 0 pre s [] [] = Inr (s1, cs, es)"
      and v: "validate_email e (dict_get r ''email'')"
      and seen: "dict_get r ''email'' \<in> set (map c_email cs)"
    for pre s1 cs es r
  proof -
    from bulk_loop_store [OF pre] have "customers s1 = customers s @ cs" by auto
    with seen have ex: "email_exists s1 (dict_get r ''email'')"
      by (auto simp: email_exists_def)
    from BulkCreateCustomers_rejected_at
      [OF pre bulk_loop_single_email_exists [OF v ex], of "[]"] ex
    show ?thesis by simp
  qed
  have two: "BulkCreateCustomers_mutate e s [r1, r2] =
        (Inr ([created_row s r1],
              [''Row 2: Email already exists ('' @ py_str (dict_get r1 ''email'') @ '')'']),
         s\<lparr>customers := customers s @ [created_row s r1]\<rparr>)"
    if same: "dict_get r2 ''email'' = dict_get r1 ''email''"
      and v: "validate_email e (dict_get r1 ''email'')"
      and u: "\<not> email_exists s (dict_get r1 ''email'')"
      and p: "\<not> phone_rejected (dict_get r1 ''phone'')"
      and f: "create_raises e s (dict_get r1 ''name'') (dict_get r1 ''email'')
                (dict_get r1 ''phone'') = None"
  proof -
    have first: "bulk_loop e 0 [r1] s [] [] =
        Inr (s\<lparr>customers := customers s @ [created_row s r1]\<rparr>, [created_row s r1], [])"
      by (rule bulk_loop_single_created [OF v u p f])
    have v2: "validate_email e (dict_get r2 ''email'')" using v same by simp
    have seen: "dict_get r2 ''email'' \<in> set (map c_email [created_row s r1])"
      using same by simp
    from general [OF first v2 seen] show ?thesis
      by (simp add: same str_of_nat_2)
  qed
  from general two show ?thesis by blast
qed

theorem BulkCreateCustomers_sequential_visibility_witness:
  "bulk_loop plain_env 0 [rec_alice] empty_store [] [] =
     Inr (empty_store\<lparr>customers := [row_alice]\<rparr>, [row_alice], []) \<and>
   email_exists (empty_store\<lparr>customers := [row_alice]\<rparr>) (PStr ''alice@example.com'') \<and>
   \<not> email_exists empty_store (PStr ''alice@example.com'') \<and>
   BulkCreateCustomers_mutate plain_env empty_store [rec_alice, rec_alice_again] =
     (Inr ([row_alice], [''Row 2: Email already exists (alice@example.com)'']),
      empty_store\<lparr>customers := [row_alice]\<rparr>)"
proof -
  have g1: "dict_get rec_alice ''name'' = PStr ''Alice''"
    and g2: "dict_get rec_alice ''email'' = PStr ''alice@example.com''"
    and g3: "dict_get rec_alice ''phone'' = PStr ''+1234567890''"
    and g4: "dict_get rec_alice_again ''email'' = PStr ''alice@example.com''"
    by (simp_all add: dict_get_def rec_alice_def rec_alice_again_def)
  have pre: "bulk_loop plain_env 0 [rec_alice] empty_store [] [] =
     Inr (empty_store\<lparr>customers := [row_alice]\<rparr>, [row_alice], [])"
    by (simp add: run_bulk rec_alice_def empty_store_def row_alice_def)
  have v: "validate_email plain_env (PStr ''alice@example.com'')"
    by (simp add: plain_env_def validateEmail_def)
  have seen: "PStr ''alice@example.com'' \<in> set (map c_email [row_alice])"
    by (simp add: row_alice_def)
  have u: "\<not> email_exists empty_store (PStr ''alice@example.com'')"
    by (simp add: email_exists_def empty_store_def)
  have p: "\<not> phone_rejected (PStr ''+1234567890'')"
    by (simp add: startswith_def)
  have f: "create_raises plain_env empty_store (PStr ''Alice'') (PStr ''alice@example.com'')
             (PStr ''+1234567890'') = None"
    by (simp add: plain_env_def)
  note t = BulkCreateCustomers_sequential_visibility
      [of plain_env "[rec_alice]" empty_store "empty_store\<lparr>customers := [row_alice]\<rparr>"
          "[row_alice]" "[]" rec_alice_again rec_alice_again rec_alice]
  from t pre v seen u p f show ?thesis
    by (simp add: g1 g2 g3 g4 row_alice_def empty_store_def new_id_def email_exists_def
          str_of_nat_2)
qed

text \<open>
  Claim C6, as the code has it. When the records before a rejected record were processed
  and the call returns, the entry of the rejected record stands in \<open>errors\<close> right after
  the entries of the earlier records, and it is
  "Row <i>: Invalid email <email>" for an email the validator refuses (the value follows
  the reason, without parentheses),
  "Row <i>: Email already exists (<email>)" for an email already in the store, and
  "Row <i>: Invalid phone format (<phone>)" for a phone that fails the phone test,
  \<open>i\<close> being the 1-based position of the record.
\<close>

theorem BulkCreateCustomers_error_entry:
  assumes pre: "bulk_loop e 0 pre s [] [] = Inr (s1, cs, es)"
    and res: "BulkCreateCustomers_mutate e s (pre @ data # rest) = (Inr (created, errors), s')"
  shows "(\<not> validate_email e (dict_get data ''email'') \<longrightarrow>
            take (length es) errors = es \<and> length es < length errors \<and>
            errors ! length es =
              ''Row '' @ str_of_nat (length pre + 1) @ '': Invalid email ''
                @ py_str (dict_get data ''email'')) \<and>
         (validate_email e (dict_get data ''email'') \<and> email_exists s1 (dict_get data ''email'') \<longrightarrow>
            take (length es) errors = es \<and> length es < length errors \<and>
            errors ! length es =
              ''Row '' @ str_of_nat (length pre + 1) @ '': Email already exists (''
                @ py_str (dict_get data ''email'') @ '')'') \<and>
         (validate_email e (dict_get data ''email'') \<and> \<not> email_exists s1 (dict_get data ''email'')
            \<and> phone_rejected (dict_get data ''phone'') \<longrightarrow>
            take (length es) errors = es \<and> length es < length errors \<and>
            errors ! length es =
              ''Row '' @ str_of_nat (length pre + 1) @ '': Invalid phone format (''
                @ py_str (dict_get data ''phone'') @ '')'')"
proof -
  have entry: "take (length es) errors = es \<and> length es < length errors \<and> errors ! length es = m"
    if rej: "bulk_loop e (length pre) [data] s1 [] [] = Inr (s1, [], [m])" for m
  proof -
    from BulkCreateCustomers_rejected_at [OF pre rej, of rest] res
    obtain es2 where "errors = es @ m # es2"
      by (auto split: sum.splits prod.splits)
    then show ?thesis by simp
  qed
  show ?thesis
  proof (intro conjI impI)
    assume "\<not> validate_email e (dict_get data ''email'')"
    from entry [OF bulk_loop_single_invalid_email [OF this]]
    show "take (length es) errors = es" "length es < length errors"
      "errors ! length es = ''Row '' @ str_of_nat (length pre + 1) @ '': Invalid email ''
                @ py_str (dict_get data ''email'')"
      by simp_all
  next
    assume a: "validate_email e (dict_get data ''email'') \<and> email_exists s1 (dict_get data ''email'')"
    from entry [OF bulk_loop_single_email_exists [of e data s1 "length pre"]] a
    show "take (length es) errors = es" "length es < length errors"
      "errors ! length es = ''Row '' @ str_of_nat (length pre + 1) @ '': Email already exists (''
                @ py_str (dict_get data ''email'') @ '')''"
      by simp_all
  next
    assume a: "validate_email e (dict_get data ''email'') \<and> \<not> email_exists s1 (dict_get data ''email'')
            \<and> phone_rejected (dict_get data ''phone'')"
    from entry [OF bulk_loop_single_phone_rejected [of e data s1 "length pre"]] a
    show "take (length es) errors = es" "length es < length errors"
      "errors ! length es = ''Row '' @ str_of_nat (length pre + 1) @ '': Invalid phone format (''
                @ py_str (dict_get data ''phone'') @ '')''"
      by simp_all
  qed
qed

theorem BulkCreateCustomers_error_entry_witness:
  "BulkCreateCustomers_mutate plain_env shop [rec_bad, rec_alice, rec_badphone] =
     (Inr ([], [''Row 1: Invalid email not-an-email'',
                ''Row 2: Email already exists (alice@example.com)'',
                ''Row 3: Invalid phone format (abc)'']), shop) \<and>
   [''Row 1: Invalid email not-an-email'',
    ''Row 2: Email already exists (alice@example.com)'',
    ''Row 3: Invalid phone format (abc)''] ! 0
     = ''Row 1: Invalid email not-an-email'' \<and>
   [''Row 1: Invalid email not-an-email'',
    ''Row 2: Email already exists (alice@example.com)'',
    ''Row 3: Invalid phone format (abc)''] ! 1
     = ''Row 2: Email already exists (alice@example.com)'' \<and>
   [''Row 1: Invalid email not-an-email'',
    ''Row 2: Email already exists (alice@example.com)'',
    ''Row 3: Invalid phone format (abc)''] ! 2
     = ''Row 3: Invalid phone format (abc)''"
proof -
  let ?errs = "[''Row 1: Invalid email not-an-email'',
                ''Row 2: Email already exists (alice@example.com)'',
                ''Row 3: Invalid phone format (abc)'']"
  have run: "BulkCreateCustomers_mutate plain_env shop [rec_bad, rec_alice, rec_badphone] =
     (Inr ([], ?errs), shop)"
    by (simp add: run_bulk rec_bad_def rec_alice_def rec_badphone_def shop_def)
  have pre0: "bulk_loop plain_env 0 [] shop [] [] = Inr (shop, [], [])" by simp
  have pre1: "bulk_loop plain_env 0 [rec_bad] shop [] [] =
      Inr (shop, [], [''Row 1: Invalid email not-an-email''])"
    by (simp add: run_bulk rec_bad_def)
  have pre2: "bulk_loop plain_env 0 [rec_bad, rec_alice] shop [] [] =
      Inr (shop, [], [''Row 1: Invalid email not-an-email'',
                      ''Row 2: Email already exists (alice@example.com)''])"
    by (simp add: run_bulk rec_bad_def rec_alice_def shop_def)
  have b0: "\<not> validate_email plain_env (dict_get rec_bad ''email'')"
    by (simp add: plain_env_def validateEmail_def dict_get_def rec_bad_def)
  have b1: "validate_email plain_env (dict_get rec_alice ''email'') \<and>
            email_exists shop (dict_get rec_alice ''email'')"
    by (simp add: plain_env_def validateEmail_def dict_get_def rec_alice_def email_exists_def
          shop_def)
  have b2: "validate_email plain_env (dict_get rec_badphone ''email'') \<and>
            \<not> email_exists shop (dict_get rec_badphone ''email'') \<and>
            phone_rejected (dict_get rec_badphone ''phone'')"
    by (simp add: plain_env_def validateEmail_def dict_get_def rec_badphone_def email_exists_def
          shop_def startswith_def isdigit_def isdigit_char_def replace_char_def)
  have r0: "BulkCreateCustomers_mutate plain_env shop ([] @ rec_bad # [rec_alice, rec_badphone]) =
     (Inr ([], ?errs), shop)" using run by simp
  have r1: "BulkCreateCustomers_mutate plain_env shop ([rec_bad] @ rec_alice # [rec_badphone]) =
     (Inr ([], ?errs), shop)" using run by simp
  have r2: "BulkCreateCustomers_mutate plain_env shop ([rec_bad, rec_alice] @ rec_badphone # []) =
     (Inr ([], ?errs), shop)" using run by simp
  from BulkCreateCustomers_error_entry [OF pre0 r0] b0
  have e0: "?errs ! 0 = ''Row 1: Invalid email not-an-email''"
    by simp
  from BulkCreateCustomers_error_entry [OF pre1 r1] b1
  have e1: "?errs ! 1 = ''Row 2: Email already exists (alice@example.com)''"
    by simp
  from BulkCreateCustomers_error_entry [OF pre2 r2] b2
  have e2: "?errs ! 2 = ''Row 3: Invalid phone format (abc)''"
    by simp
  from run e0 e1 e2 show ?thesis by blast
qed

text \<open>
  The entry of a record with a malformed email does not have the shape
  "Row <i>: <reason> (<value>)": the call on the single record \<open>rec_bad\<close> returns the
  entry "Row 1: Invalid email not-an-email", which does not end with the value in
  parentheses.
\<close>

theorem BulkCreateCustomers_error_entry_counterexample:
  "BulkCreateCustomers_mutate plain_env empty_store [rec_bad] =
     (Inr ([], [''Row 1: Invalid email not-an-email'']), empty_store) \<and>
   py_str (dict_get rec_bad ''email'') = ''not-an-email'' \<and>
   \<not> spec_error_shape 1 ''not-an-email'' ''Row 1: Invalid email not-an-email''"
  by (simp add: run_bulk rec_bad_def empty_store_def spec_error_shape_def)

text \<open>
  Claim C7. Records are processed in input order, and a rejected record changes neither
  the store nor the treatment of the others. Of three records of which the first and the
  third have valid, distinct emails not in the store and acceptable phones (their
  insertions not faulting) and the second has an email the validator refuses, the first
  and the third are created, \<open>customers\<close> holds these two rows in that order, \<open>errors\<close> is
  the single entry "Row 2: Invalid email <email>", and the store gains exactly the two
  rows. In general the response to \<open>xs @ ys\<close> is the response to \<open>xs\<close> followed by what
  the records of \<open>ys\<close> add, processed from the store \<open>xs\<close> left: both lists are in
  processing order. And a record rejected at any position, for any of the three reasons
  (email format, duplicate email, phone format), adds one entry to \<open>errors\<close>, no customer
  and nothing to the store; the call goes on with the next record from the same store,
  and it ends with the store and the customers (or the exception) of the call on the
  input without that record.
\<close>

theorem BulkCreateCustomers_independent_rows:
  "(validate_email e (dict_get r1 ''email'') \<and>
    \<not> email_exists s (dict_get r1 ''email'') \<and>
    \<not> phone_rejected (dict_get r1 ''phone'') \<and>
    create_raises e s (dict_get r1 ''name'') (dict_get r1 ''email'') (dict_get r1 ''phone'') = None \<and>
    \<not> validate_email e (dict_get r2 ''email'') \<and>
    validate_email e (dict_get r3 ''email'') \<and>
    dict_get r3 ''email'' \<noteq> dict_get r1 ''email'' \<and>
    \<not> email_exists s (dict_get r3 ''email'') \<and>
    \<not> phone_rejected (dict_get r3 ''phone'') \<and>
    create_raises e (s\<lparr>customers := customers s @ [created_row s r1]\<rparr>)
      (dict_get r3 ''name'') (dict_get r3 ''email'') (dict_get r3 ''phone'') = None \<longrightarrow>
      BulkCreateCustomers_mutate e s [r1, r2, r3] =
        (Inr ([created_row s r1,
               created_row (s\<lparr>customers := customers s @ [created_row s r1]\<rparr>) r3],
              [''Row 2: Invalid email '' @ py_str (dict_get r2 ''email'')]),
         s\<lparr>customers := customers s @
              [created_row s r1,
               created_row (s\<lparr>customers := customers s @ [created_row s r1]\<rparr>) r3]\<rparr>)) \<and>
   BulkCreateCustomers_mutate e s (xs @ ys) =
     (case bulk_loop e 0 xs s [] [] of
        Inl x \<Rightarrow> (Inl x, s)
      | Inr (sa, cs, es) \<Rightarrow>
          (case bulk_loop e (length xs) ys sa [] [] of
             Inl x \<Rightarrow> (Inl x, s)
           | Inr (sb, cs2, es2) \<Rightarrow> (Inr (cs @ cs2, es @ es2), sb))) \<and>
   (bulk_loop e 0 pre s [] [] = Inr (s1, cs1, es1) \<and>
    (\<not> validate_email e (dict_get data ''email'') \<or>
     email_exists s1 (dict_get data ''email'') \<or>
     phone_rejected (dict_get data ''phone'')) \<longrightarrow>
      (\<exists>m. bulk_loop e (length pre) [data] s1 [] [] = Inr (s1, [], [m]) \<and>
           BulkCreateCustomers_mutate e s (pre @ data # rest) =
             (case bulk_loop e (Suc (length pre)) rest s1 [] [] of
                Inl x \<Rightarrow> (Inl x, s)
              | Inr (s2, cs2, es2) \<Rightarrow> (Inr (cs1 @ cs2, es1 @ m # es2), s2))) \<and>
      snd (BulkCreateCustomers_mutate e s (pre @ data # rest)) =
        snd (BulkCreateCustomers_mutate e s (pre @ rest)) \<and>
      map_sum id fst (fst (BulkCreateCustomers_mutate e s (pre @ data # rest))) =
        map_sum id fst (fst (BulkCreateCustomers_mutate e s (pre @ rest))))"
proof -
  have scenario: "BulkCreateCustomers_mutate e s [r1, r2, r3] =
        (Inr ([created_row s r1,
               created_row (s\<lparr>customers := customers s @ [created_row s r1]\<rparr>) r3],
              [''Row 2: Invalid email '' @ py_str (dict_get r2 ''email'')]),
         s\<lparr>customers := customers s @
              [created_row s r1,
               created_row (s\<lparr>customers := customers s @ [created_row s r1]\<rparr>) r3]\<rparr>)"
    if v1: "validate_email e (dict_get r1 ''email'')"
      and u1: "\<not> email_exists s (dict_get r1 ''email'')"
      and p1: "\<not> phone_rejected (dict_get r1 ''phone'')"
      and f1: "create_raises e s (dict_get r1 ''name'') (dict_get r1 ''email'')
                 (dict_get r1 ''phone'') = None"
      and b2: "\<not> validate_email e (dict_get r2 ''email'')"
      and v3: "validate_email e (dict_get r3 ''email'')"
      and d3: "dict_get r3 ''email'' \<noteq> dict_get r1 ''email''"
      and u3: "\<not> email_exists s (dict_get r3 ''email'')"
      and p3: "\<not> phone_rejected (dict_get r3 ''phone'')"
      and f3: "create_raises e (s\<lparr>customers := customers s @ [created_row s r1]\<rparr>)
                 (dict_get r3 ''name'') (dict_get r3 ''email'') (dict_get r3 ''phone'') = None"
  proof -
    let ?s1 = "s\<lparr>customers := customers s @ [created_row s r1]\<rparr>"
    have first: "bulk_loop e 0 [r1] s [] [] = Inr (?s1, [created_row s r1], [])"
      by (rule bulk_loop_single_created [OF v1 u1 p1 f1])
    have second: "bulk_loop e (length [r1]) [r2] ?s1 [] [] =
        Inr (?s1, [], [''Row 2: Invalid email '' @ py_str (dict_get r2 ''email'')])"
      using bulk_loop_single_invalid_email [OF b2, of "Suc 0" ?s1] by (simp add: str_of_nat_2)
    have u3': "\<not> email_exists ?s1 (dict_get r3 ''email'')"
      using u3 d3 by (simp add: email_exists_def)
    have third: "bulk_loop e (Suc (length [r1])) [r3] ?s1 [] [] =
        Inr (?s1\<lparr>customers := customers ?s1 @ [created_row ?s1 r3]\<rparr>, [created_row ?s1 r3], [])"
      by (rule bulk_loop_single_created [OF v3 u3' p3 f3])
    from BulkCreateCustomers_rejected_at [OF first second, of "[r3]"] third
    show ?thesis by simp
  qed
  have order: "BulkCreateCustomers_mutate e s (xs @ ys) =
     (case bulk_loop e 0 xs s [] [] of
        Inl x \<Rightarrow> (Inl x, s)
      | Inr (sa, cs, es) \<Rightarrow>
          (case bulk_loop e (length xs) ys sa [] [] of
             Inl x \<Rightarrow> (Inl x, s)
           | Inr (sb, cs2, es2) \<Rightarrow> (Inr (cs @ cs2, es @ es2), sb)))"
    by (rule BulkCreateCustomers_append)
  have rejected:
    "(\<exists>m. bulk_loop e (length pre) [data] s1 [] [] = Inr (s1, [], [m]) \<and>
           BulkCreateCustomers_mutate e s (pre @ data # rest) =
             (case bulk_loop e (Suc (length pre)) rest s1 [] [] of
                Inl x \<Rightarrow> (Inl x, s)
              | Inr (s2, cs2, es2) \<Rightarrow> (Inr (cs1 @ cs2, es1 @ m # es2), s2))) \<and>
      snd (BulkCreateCustomers_mutate e s (pre @ data # rest)) =
        snd (BulkCreateCustomers_mutate e s (pre @ rest)) \<and>
      map_sum id fst (fst (BulkCreateCustomers_mutate e s (pre @ data # rest))) =
        map_sum id fst (fst (BulkCreateCustomers_mutate e s (pre @ rest)))"
    if pre: "bulk_loop e 0 pre s [] [] = Inr (s1, cs1, es1)"
      and rej: "\<not> validate_email e (dict_get data ''email'') \<or>
                email_exists s1 (dict_get data ''email'') \<or>
                phone_rejected (dict_get data ''phone'')"
  proof -
    from bulk_loop_rejected [OF rej, of "length pre"] obtain m where
      m: "bulk_loop e (length pre) [data] s1 [] [] = Inr (s1, [], [m])" by blast
    from m BulkCreateCustomers_rejected_at [OF pre m, of rest]
      BulkCreateCustomers_without_rejected [OF pre m, of rest]
    show ?thesis by blast
  qed
  from scenario order rejected show ?thesis by blast
qed

theorem BulkCreateCustomers_independent_rows_witness:
  "BulkCreateCustomers_mutate plain_env empty_store [rec_alice, rec_bad, rec_carol] =
     (Inr ([row_alice,
            \<lparr>c_id = 2, c_name = PStr ''Carol'', c_email = PStr ''carol@example.com'',
              c_phone = PNone\<rparr>],
           [''Row 2: Invalid email not-an-email'']),
      empty_store\<lparr>customers := [row_alice,
            \<lparr>c_id = 2, c_name = PStr ''Carol'', c_email = PStr ''carol@example.com'',
              c_phone = PNone\<rparr>]\<rparr>) \<and>
   length [row_alice,
            \<lparr>c_id = 2, c_name = PStr ''Carol'', c_email = PStr ''carol@example.com'',
              c_phone = PNone\<rparr>] = 2 \<and>
   BulkCreateCustomers_mutate plain_env empty_store [rec_alice, rec_badphone, rec_carol] =
     (Inr ([row_alice,
            \<lparr>c_id = 2, c_name = PStr ''Carol'', c_email = PStr ''carol@example.com'',
              c_phone = PNone\<rparr>],
           [''Row 2: Invalid phone format (abc)'']),
      empty_store\<lparr>customers := [row_alice,
            \<lparr>c_id = 2, c_name = PStr ''Carol'', c_email = PStr ''carol@example.com'',
              c_phone = PNone\<rparr>]\<rparr>) \<and>
   BulkCreateCustomers_mutate plain_env empty_store [rec_alice, rec_alice_again, rec_carol] =
     (Inr ([row_alice,
            \<lparr>c_id = 2, c_name = PStr ''Carol'', c_email = PStr ''carol@example.com'',
              c_phone = PNone\<rparr>],
           [''Row 2: Email already exists (alice@example.com)'']),
      empty_store\<lparr>customers := [row_alice,
            \<lparr>c_id = 2, c_name = PStr ''Carol'', c_email = PStr ''carol@example.com'',
              c_phone = PNone\<rparr>]\<rparr>) \<and>
   snd (BulkCreateCustomers_mutate plain_env empty_store [rec_alice, rec_badphone, rec_carol]) =
     snd (BulkCreateCustomers_mutate plain_env empty_store [rec_alice, rec_carol]) \<and>
   snd (BulkCreateCustomers_mutate plain_env empty_store [rec_alice, rec_alice_again, rec_carol]) =
     snd (BulkCreateCustomers_mutate plain_env empty_store [rec_alice, rec_carol])"
proof -
  let ?carol = "\<lparr>c_id = 2, c_name = PStr ''Carol'', c_email = PStr ''carol@example.com'',
                  c_phone = PNone\<rparr>"
  let ?s1 = "empty_store\<lparr>customers := [row_alice]\<rparr>"
  have a: "dict_get rec_alice ''name'' = PStr ''Alice''"
      "dict_get rec_alice ''email'' = PStr ''alice@example.com''"
      "dict_get rec_alice ''phone'' = PStr ''+1234567890''"
    and b: "dict_get rec_bad ''email'' = PStr ''not-an-email''"
    and c: "dict_get rec_carol ''name'' = PStr ''Carol''"
      "dict_get rec_carol ''email'' = PStr ''carol@example.com''"
      "dict_get rec_carol ''phone'' = PNone"
    by (simp_all add: dict_get_def rec_alice_def rec_bad_def rec_carol_def)
  have scenario_premises:
    "validate_email plain_env (dict_get rec_alice ''email'') \<and>
     \<not> email_exists empty_store (dict_get rec_alice ''email'') \<and>
     \<not> phone_rejected (dict_get rec_alice ''phone'') \<and>
     create_raises plain_env empty_store (dict_get rec_alice ''name'')
       (dict_get rec_alice ''email'') (dict_get rec_alice ''phone'') = None \<and>
     \<not> validate_email plain_env (dict_get rec_bad ''email'') \<and>
     validate_email plain_env (dict_get rec_carol ''email'') \<and>
     dict_get rec_carol ''email'' \<noteq> dict_get rec_alice ''email'' \<and>
     \<not> email_exists empty_store (dict_get rec_carol ''email'') \<and>
     \<not> phone_rejected (dict_get rec_carol ''phone'') \<and>
     create_raises plain_env
       (empty_store\<lparr>customers := customers empty_store @ [created_row empty_store rec_alice]\<rparr>)
       (dict_get rec_carol ''name'') (dict_get rec_carol ''email'')
       (dict_get rec_carol ''phone'') = None"
    by (simp add: a b c plain_env_def validateEmail_def email_exists_def empty_store_def
          startswith_def)
  have pre: "bulk_loop plain_env 0 [rec_alice] empty_store [] [] = Inr (?s1, [row_alice], [])"
    by (simp add: run_bulk rec_alice_def empty_store_def row_alice_def)
  have rej_phone: "\<not> validate_email plain_env (dict_get rec_badphone ''email'') \<or>
      email_exists ?s1 (dict_get rec_badphone ''email'') \<or>
      phone_rejected (dict_get rec_badphone ''phone'')"
    by (simp add: dict_get_def rec_badphone_def startswith_def isdigit_def isdigit_char_def
          replace_char_def)
  have rej_dup: "\<not> validate_email plain_env (dict_get rec_alice_again ''email'') \<or>
      email_exists ?s1 (dict_get rec_alice_again ''email'') \<or>
      phone_rejected (dict_get rec_alice_again ''phone'')"
    by (simp add: dict_get_def rec_alice_again_def email_exists_def row_alice_def)
  note t1 = BulkCreateCustomers_independent_rows
      [where e = plain_env and s = empty_store and ?r1.0 = rec_alice and ?r2.0 = rec_bad
         and ?r3.0 = rec_carol, THEN conjunct1, THEN mp, OF scenario_premises]
  note t_phone = BulkCreateCustomers_independent_rows
      [where e = plain_env and s = empty_store and pre = "[rec_alice]" and ?s1.0 = ?s1
         and ?cs1.0 = "[row_alice]" and ?es1.0 = "[]" and data = rec_badphone
         and rest = "[rec_carol]",
       THEN conjunct2, THEN conjunct2, THEN mp, OF conjI [OF pre rej_phone]]
  note t_dup = BulkCreateCustomers_independent_rows
      [where e = plain_env and s = empty_store and pre = "[rec_alice]" and ?s1.0 = ?s1
         and ?cs1.0 = "[row_alice]" and ?es1.0 = "[]" and data = rec_alice_again
         and rest = "[rec_carol]",
       THEN conjunct2, THEN conjunct2, THEN mp, OF conjI [OF pre rej_dup]]
  have r1: "BulkCreateCustomers_mutate plain_env empty_store [rec_alice, rec_bad, rec_carol] =
     (Inr ([row_alice, ?carol], [''Row 2: Invalid email not-an-email'']),
      empty_store\<lparr>customers := [row_alice, ?carol]\<rparr>)"
    using t1 by (simp add: a b c empty_store_def row_alice_def new_id_def)
  have r2: "BulkCreateCustomers_mutate plain_env empty_store [rec_alice, rec_badphone, rec_carol] =
     (Inr ([row_alice, ?carol], [''Row 2: Invalid phone format (abc)'']),
      empty_store\<lparr>customers := [row_alice, ?carol]\<rparr>)"
    by (simp add: run_bulk rec_alice_def rec_badphone_def rec_carol_def empty_store_def
          row_alice_def)
  have r3: "BulkCreateCustomers_mutate plain_env empty_store [rec_alice, rec_alice_again, rec_carol] =
     (Inr ([row_alice, ?carol], [''Row 2: Email already exists (alice@example.com)'']),
      empty_store\<lparr>customers := [row_alice, ?carol]\<rparr>)"
    by (simp add: run_bulk rec_alice_def rec_alice_again_def rec_carol_def empty_store_def
          row_alice_def)
  have e2: "snd (BulkCreateCustomers_mutate plain_env empty_store [rec_alice, rec_badphone, rec_carol]) =
     snd (BulkCreateCustomers_mutate plain_env empty_store [rec_alice, rec_carol])"
    using t_phone by simp
  have e3: "snd (BulkCreateCustomers_mutate plain_env empty_store [rec_alice, rec_alice_again, rec_carol]) =
     snd (BulkCreateCustomers_mutate plain_env empty_store [rec_alice, rec_carol])"
    using t_dup by simp
  have two: "length [row_alice, ?carol] = 2" by simp
  from r1 two r2 r3 e2 e3 show ?thesis by blast
qed

text \<open>
  Claim C9. A record without an \<open>email\<close> key has the email \<open>None\<close>, which the validator
  refuses; the record then takes the ordinary rejection path: it adds the entry
  "Row <i>: Invalid email None", writes nothing, and the call goes on with the next
  record from the same store instead of ending with an exception.
\<close>

theorem BulkCreateCustomers_missing_email:
  assumes absent: "data ''email'' = None"
    and none: "\<not> validate_email e PNone"
    and pre: "bulk_loop e 0 pre s [] [] = Inr (s1, cs, es)"
  shows "bulk_loop e (length pre) [data] s1 [] [] =
           Inr (s1, [], [''Row '' @ str_of_nat (length pre + 1) @ '': Invalid email None'']) \<and>
         BulkCreateCustomers_mutate e s (pre @ data # rest) =
           (case bulk_loop e (Suc (length pre)) rest s1 [] [] of
              Inl x \<Rightarrow> (Inl x, s)
            | Inr (s2, cs2, es2) \<Rightarrow>
                (Inr (cs @ cs2,
                      es @ (''Row '' @ str_of_nat (length pre + 1) @ '': Invalid email None'')
                        # es2), s2))"
proof -
  have em: "dict_get data ''email'' = PNone"
    using absent by (simp add: dict_get_def)
  have bad: "\<not> validate_email e (dict_get data ''email'')"
    using none by (simp add: em)
  have rej: "bulk_loop e (length pre) [data] s1 [] [] =
           Inr (s1, [], [''Row '' @ str_of_nat (length pre + 1) @ '': Invalid email None''])"
    using bulk_loop_single_invalid_email [OF bad, of "length pre" s1] by (simp add: em)
  from rej BulkCreateCustomers_rejected_at [OF pre rej, of rest] show ?thesis
    by simp
qed

theorem BulkCreateCustomers_missing_email_witness:
  "BulkCreateCustomers_mutate plain_env empty_store [rec_alice, rec_noemail, rec_carol] =
     (Inr ([row_alice,
            \<lparr>c_id = 2, c_name = PStr ''Carol'', c_email = PStr ''carol@example.com'',
              c_phone = PNone\<rparr>],
           [''Row 2: Invalid email None'']),
      empty_store\<lparr>customers := [row_alice,
            \<lparr>c_id = 2, c_name = PStr ''Carol'', c_email = PStr ''carol@example.com'',
              c_phone = PNone\<rparr>]\<rparr>)"
proof -
  have absent: "rec_noemail ''email'' = None" by (simp add: rec_noemail_def)
  have none: "\<not> validate_email plain_env PNone" by (simp add: plain_env_def validateEmail_def)
  have pre: "bulk_loop plain_env 0 [rec_alice] empty_store [] [] =
     Inr (empty_store\<lparr>customers := [row_alice]\<rparr>, [row_alice], [])"
    by (simp add: run_bulk rec_alice_def empty_store_def row_alice_def)
  have rest: "bulk_loop plain_env (Suc (length [rec_alice])) [rec_carol]
                (empty_store\<lparr>customers := [row_alice]\<rparr>) [] [] =
     Inr (empty_store\<lparr>customers := [row_alice,
            \<lparr>c_id = 2, c_name = PStr ''Carol'', c_email = PStr ''carol@example.com'',
              c_phone = PNone\<rparr>]\<rparr>,
          [\<lparr>c_id = 2, c_name = PStr ''Carol'', c_email = PStr ''carol@example.com'',
              c_phone = PNone\<rparr>], [])"
    by (simp add: run_bulk rec_carol_def empty_store_def row_alice_def)
  from BulkCreateCustomers_missing_email
      [of rec_noemail plain_env "[rec_alice]" empty_store _ _ _ "[rec_carol]", OF absent none pre]
    rest
  show ?thesis by (simp add: str_of_nat_2)
qed

end
